theory Spec2Isabelle
  imports Main
begin

section \<open>JavaScript values\<close>

text \<open>
  The dispatcher receives \<open>params: any\<close>, the parsed \<open>params\<close> member of a JSON-RPC
  request, and the store answers with JSON bodies. Both are values of \<open>jsval\<close>.
  \<open>JUndef\<close> is JavaScript's \<open>undefined\<close> (what reading an absent property gives).
  Numbers are the integers (identifiers, page numbers and sizes); fractional numbers are
  not represented. An object is the list of its own properties in insertion order; the
  lists that \<open>JSON.parse\<close> produces have distinct keys. Strings are byte strings (UTF-8).
\<close>

datatype jsval =
    JUndef
  | JNull
  | JBool bool
  | JNum int
  | JStr string
  | JArr "jsval list"
  | JObj "(string \<times> jsval) list"

text \<open>\<open>!v\<close> is \<open>\<not> truthy v\<close>: undefined, null, false, 0 and the empty string are falsy.\<close>

fun truthy :: "jsval \<Rightarrow> bool" where
  "truthy JUndef = False"
| "truthy JNull = False"
| "truthy (JBool b) = b"
| "truthy (JNum n) = (n \<noteq> 0)"
| "truthy (JStr s) = (s \<noteq> [])"
| "truthy (JArr xs) = True"
| "truthy (JObj kvs) = True"

text \<open>\<open>a || b\<close>: the left operand itself when it is truthy, the right one otherwise.\<close>

definition js_or :: "jsval \<Rightarrow> jsval \<Rightarrow> jsval" where
  "js_or a b = (if truthy a then a else b)"

fun nullish :: "jsval \<Rightarrow> bool" where
  "nullish JUndef = True"
| "nullish JNull = True"
| "nullish v = False"

text \<open>
  \<open>v.k\<close> for a receiver that is neither null nor undefined. The property names read in
  this program (\<open>siteUrl\<close>, \<open>productId\<close>, \<open>meta_data\<close>, \<open>key\<close>, \<open>message\<close>, ...) are
  none of the built-in properties of strings, numbers, booleans or arrays, so only an
  object can hold them.
\<close>

fun js_get :: "jsval \<Rightarrow> string \<Rightarrow> jsval" where
  "js_get (JObj kvs) k = (case map_of kvs k of Some v \<Rightarrow> v | None \<Rightarrow> JUndef)"
| "js_get v k = JUndef"

text \<open>\<open>v?.k\<close>: undefined on a null or undefined receiver.\<close>

definition opt_get :: "jsval \<Rightarrow> string \<Rightarrow> jsval" where
  "opt_get v k = (if nullish v then JUndef else js_get v k)"

text \<open>
  \<open>a === b\<close>. Primitives are compared by type and value. Two objects (or arrays) are equal
  only when they are the same object, which two values parsed from different JSON
  documents never are.
\<close>

fun strict_eq :: "jsval \<Rightarrow> jsval \<Rightarrow> bool" where
  "strict_eq (JArr xs) b = False"
| "strict_eq (JObj kvs) b = False"
| "strict_eq a b = (a = b)"

subsection \<open>Conversion to string (template literals, \<open>String(v)\<close>)\<close>

fun digits_nat :: "nat \<Rightarrow> string" where
  "digits_nat n =
     (if n < 10 then [''0123456789'' ! n]
      else digits_nat (n div 10) @ [''0123456789'' ! (n mod 10)])"

declare digits_nat.simps [simp del]

fun join_comma :: "string list \<Rightarrow> string" where
  "join_comma [] = []"
| "join_comma [s] = s"
| "join_comma (s # t # r) = s @ '','' @ join_comma (t # r)"

fun js_to_string :: "jsval \<Rightarrow> string" where
  "js_to_string JUndef = ''undefined''"
| "js_to_string JNull = ''null''"
| "js_to_string (JBool b) = (if b then ''true'' else ''false'')"
| "js_to_string (JNum n) =
     (if n < 0 then CHR ''-'' # digits_nat (nat (- n)) else digits_nat (nat n))"
| "js_to_string (JStr s) = s"
| "js_to_string (JArr xs) =
     join_comma (map (\<lambda>x. if nullish x then [] else js_to_string x) xs)"
| "js_to_string (JObj kvs) = ''[object Object]''"

subsection \<open>Object literals and spread\<close>

text \<open>
  The keys of an object are listed with the array indices first, in ascending order,
  then the other keys in the order of their creation. An array index is the canonical
  decimal string of a number below \<open>2^32 - 1\<close>.
\<close>

definition digit_value :: "char \<Rightarrow> nat option" where
  "digit_value c =
     (if 48 \<le> (of_char c :: nat) \<and> (of_char c :: nat) \<le> 57
      then Some (of_char c - 48) else None)"

fun parse_digits :: "string \<Rightarrow> nat \<Rightarrow> nat option" where
  "parse_digits [] acc = Some acc"
| "parse_digits (c # cs) acc =
     (case digit_value c of
        None \<Rightarrow> None
      | Some d \<Rightarrow> parse_digits cs (10 * acc + d))"

definition array_index :: "string \<Rightarrow> nat option" where
  "array_index k =
     (if k = [] then None
      else case parse_digits k 0 of
        None \<Rightarrow> None
      | Some n \<Rightarrow> if n < 4294967295 \<and> digits_nat n = k then Some n else None)"

text \<open>
  Creating a property under a key the object does not have: an array index goes before
  the first key that is a larger index or no index, any other key goes to the end.
\<close>

fun obj_insert :: "(string \<times> jsval) list \<Rightarrow> string \<Rightarrow> jsval \<Rightarrow> (string \<times> jsval) list" where
  "obj_insert [] k v = [(k, v)]"
| "obj_insert ((k', v') # kvs) k v =
     (case array_index k of
        None \<Rightarrow> (k', v') # obj_insert kvs k v
      | Some n \<Rightarrow>
          (case array_index k' of
             None \<Rightarrow> (k, v) # (k', v') # kvs
           | Some n' \<Rightarrow>
               if n' < n then (k', v') # obj_insert kvs k v else (k, v) # (k', v') # kvs))"

text \<open>Writing to a property the object has: the key keeps its place.\<close>

fun obj_replace :: "(string \<times> jsval) list \<Rightarrow> string \<Rightarrow> jsval \<Rightarrow> (string \<times> jsval) list" where
  "obj_replace [] k v = []"
| "obj_replace ((k', v') # kvs) k v =
     (if k' = k then (k, v) # kvs else (k', v') # obj_replace kvs k v)"

text \<open>Defining a property, as an object literal, a spread and an assignment do.\<close>

definition obj_set :: "(string \<times> jsval) list \<Rightarrow> string \<Rightarrow> jsval \<Rightarrow> (string \<times> jsval) list" where
  "obj_set kvs k v =
     (if k \<in> set (map fst kvs) then obj_replace kvs k v else obj_insert kvs k v)"

text \<open>
  The own enumerable properties that \<open>...v\<close> copies: those of an object, the indexed
  elements of an array, the indexed characters of a string, none for anything else.
\<close>

fun own_props :: "jsval \<Rightarrow> (string \<times> jsval) list" where
  "own_props (JObj kvs) = kvs"
| "own_props (JArr xs) = zip (map digits_nat [0..<length xs]) xs"
| "own_props (JStr s) = zip (map digits_nat [0..<length s]) (map (\<lambda>c. JStr [c]) s)"
| "own_props v = []"

definition obj_spread :: "(string \<times> jsval) list \<Rightarrow> jsval \<Rightarrow> (string \<times> jsval) list" where
  "obj_spread kvs v = fold (\<lambda>(k, x) acc. obj_set acc k x) (own_props v) kvs"

subsection \<open>Base64 and URL query strings\<close>

definition b64_alphabet :: string where
  "b64_alphabet = ''ABCDEFGHIJKLMNOPQRSTUVWXYZabcdefghijklmnopqrstuvwxyz0123456789+/''"

fun base64_bytes :: "nat list \<Rightarrow> string" where
  "base64_bytes [] = []"
| "base64_bytes [a] =
     [b64_alphabet ! (a div 4), b64_alphabet ! ((a mod 4) * 16), CHR ''='', CHR ''='']"
| "base64_bytes [a, b] =
     [b64_alphabet ! (a div 4), b64_alphabet ! ((a mod 4) * 16 + b div 16),
      b64_alphabet ! ((b mod 16) * 4), CHR ''='']"
| "base64_bytes (a # b # c # r) =
     [b64_alphabet ! (a div 4), b64_alphabet ! ((a mod 4) * 16 + b div 16),
      b64_alphabet ! ((b mod 16) * 4 + c div 64), b64_alphabet ! (c mod 64)]
     @ base64_bytes r"

text \<open>\<open>Buffer.from(s).toString("base64")\<close>\<close>

definition base64 :: "string \<Rightarrow> string" where
  "base64 s = base64_bytes (map of_char s)"

text \<open>
  \<open>URLSearchParams\<close>: \<open>append\<close> adds a name and the string of a value at the end;
  the string of the whole is the \<open>application/x-www-form-urlencoded\<close> serialisation.
\<close>

definition form_byte :: "char \<Rightarrow> string" where
  "form_byte c =
     (let n = (of_char c :: nat) in
      if (48 \<le> n \<and> n \<le> 57) \<or> (65 \<le> n \<and> n \<le> 90) \<or> (97 \<le> n \<and> n \<le> 122)
         \<or> c \<in> set ''*-._'' then [c]
      else if n = 32 then ''+''
      else [CHR ''%'', ''0123456789ABCDEF'' ! (n div 16), ''0123456789ABCDEF'' ! (n mod 16)])"

definition form_encode :: "string \<Rightarrow> string" where
  "form_encode s = concat (map form_byte s)"

fun search_params_to_string :: "(string \<times> string) list \<Rightarrow> string" where
  "search_params_to_string [] = []"
| "search_params_to_string [(k, v)] = form_encode k @ ''='' @ form_encode v"
| "search_params_to_string ((k, v) # p # r) =
     form_encode k @ ''='' @ form_encode v @ ''&'' @ search_params_to_string (p # r)"

section \<open>The HTTP client and the store\<close>

text \<open>
  An axios instance as \<open>axios.create\<close> configures it: base URL, default query
  parameters, HTTP Basic credentials (\<open>auth\<close>) and headers.
\<close>

record axios_client =
  client_baseURL :: string
  client_params :: "(string \<times> jsval) list"
  client_auth :: "(jsval \<times> jsval) option"
  client_headers :: "(string \<times> string) list"

datatype verb = GET | POST | PUT | DELETE

text \<open>
  One call on a client: \<open>client.get(url, {params})\<close>, \<open>client.post(url, data)\<close>,
  \<open>client.put(url, data)\<close>, \<open>client.delete(url, {params})\<close>. \<open>call_params\<close> is
  \<open>None\<close> when no configuration is passed, \<open>call_data\<close> is \<open>JUndef\<close> when no body is.
\<close>

record upstream_call =
  call_client :: axios_client
  call_verb :: verb
  call_url :: string
  call_params :: "(string \<times> jsval) list option"
  call_data :: jsval

text \<open>
  What axios throws when a call fails: the transport message, and the body of the
  response when the store answered (\<open>None\<close>: no response was received).
\<close>

record axios_failure =
  ax_message :: string
  ax_response :: "jsval option"

datatype js_error =
    Error string
  | TypeError string
  | AxiosError axios_failure

fun error_message :: "js_error \<Rightarrow> string" where
  "error_message (Error m) = m"
| "error_message (TypeError m) = m"
| "error_message (AxiosError f) = ax_message f"

text \<open>
  The store: a call and the store's state give the body of the response (\<open>response.data\<close>)
  or a failure, and the next state.
\<close>

type_synonym 'u upstream = "upstream_call \<Rightarrow> 'u \<Rightarrow> (axios_failure + jsval) \<times> 'u"

text \<open>
  The body of the dispatcher is straight-line code: it throws, returns, or awaits a call
  and goes on with the body of the response. There is no \<open>try\<close> inside the \<open>switch\<close>:
  a failed call leaves it at once.
\<close>

datatype script =
    Throw js_error
  | Return jsval
  | Call upstream_call "jsval \<Rightarrow> script"

type_synonym exchange = "upstream_call \<times> (axios_failure + jsval)"

primrec run :: "'u upstream \<Rightarrow> script \<Rightarrow> 'u \<Rightarrow> (js_error + jsval) \<times> exchange list \<times> 'u" where
  "run up (Throw e) u = (Inl e, [], u)"
| "run up (Return v) u = (Inr v, [], u)"
| "run up (Call c k) u =
     (case up c u of
        (Inl f, u') \<Rightarrow> (Inl (AxiosError f), [(c, Inl f)], u')
      | (Inr d, u') \<Rightarrow>
          (case run up (k d) u' of (r, tr, u'') \<Rightarrow> (r, (c, Inr d) # tr, u'')))"

definition require :: "jsval \<Rightarrow> string \<Rightarrow> script \<Rightarrow> script" where
  "require v msg k = (if truthy v then k else Throw (Error msg))"

definition await_get ::
  "axios_client \<Rightarrow> string \<Rightarrow> (string \<times> jsval) list option \<Rightarrow> (jsval \<Rightarrow> script) \<Rightarrow> script" where
  "await_get cl url cfg k =
     Call \<lparr>call_client = cl, call_verb = GET, call_url = url, call_params = cfg,
           call_data = JUndef\<rparr> k"

definition await_delete ::
  "axios_client \<Rightarrow> string \<Rightarrow> (string \<times> jsval) list option \<Rightarrow> (jsval \<Rightarrow> script) \<Rightarrow> script" where
  "await_delete cl url cfg k =
     Call \<lparr>call_client = cl, call_verb = DELETE, call_url = url, call_params = cfg,
           call_data = JUndef\<rparr> k"

definition await_post :: "axios_client \<Rightarrow> string \<Rightarrow> jsval \<Rightarrow> (jsval \<Rightarrow> script) \<Rightarrow> script" where
  "await_post cl url d k =
     Call \<lparr>call_client = cl, call_verb = POST, call_url = url, call_params = None,
           call_data = d\<rparr> k"

definition await_put :: "axios_client \<Rightarrow> string \<Rightarrow> jsval \<Rightarrow> (jsval \<Rightarrow> script) \<Rightarrow> script" where
  "await_put cl url d k =
     Call \<lparr>call_client = cl, call_verb = PUT, call_url = url, call_params = None,
           call_data = d\<rparr> k"

section \<open>The dispatcher of \<open>src/index.ts\<close>\<close>

text \<open>
  The process-wide defaults, read once from the environment
  (\<open>process.env.X || ""\<close>: an unset variable is the empty string).
\<close>

record env =
  DEFAULT_SITE_URL :: string
  DEFAULT_USERNAME :: string
  DEFAULT_PASSWORD :: string
  DEFAULT_CONSUMER_KEY :: string
  DEFAULT_CONSUMER_SECRET :: string

text \<open>
  The type errors the engine raises: a property read on \<open>null\<close> or \<open>undefined\<close>, and a
  call of an array method on a value that has none. The texts stand for the engine's
  messages.
\<close>

definition null_read :: js_error where
  "null_read = TypeError ''Cannot read properties of undefined or null''"

definition not_a_function :: js_error where
  "not_a_function = TypeError ''is not a function''"

text \<open>
  The five \<open>const x = params.x || DEFAULT_X\<close> at the head of the dispatcher, the first
  statements of its \<open>try\<close>. Reading \<open>params.siteUrl\<close> throws a type error when \<open>params\<close> is
  \<open>undefined\<close> or \<open>null\<close>; otherwise the five reads succeed.
\<close>

record credentials =
  cred_siteUrl :: jsval
  cred_username :: jsval
  cred_password :: jsval
  cred_consumerKey :: jsval
  cred_consumerSecret :: jsval

definition resolve :: "env \<Rightarrow> jsval \<Rightarrow> js_error + credentials" where
  "resolve ev ps =
     (if nullish ps then Inl null_read
      else Inr
        \<lparr>cred_siteUrl = js_or (js_get ps ''siteUrl'') (JStr (DEFAULT_SITE_URL ev)),
         cred_username = js_or (js_get ps ''username'') (JStr (DEFAULT_USERNAME ev)),
         cred_password = js_or (js_get ps ''password'') (JStr (DEFAULT_PASSWORD ev)),
         cred_consumerKey = js_or (js_get ps ''consumerKey'') (JStr (DEFAULT_CONSUMER_KEY ev)),
         cred_consumerSecret =
           js_or (js_get ps ''consumerSecret'') (JStr (DEFAULT_CONSUMER_SECRET ev))\<rparr>)"

definition wpMethods :: "string list" where
  "wpMethods =
     [''create_post'', ''get_posts'', ''update_post'', ''get_post_meta'',
      ''update_post_meta'', ''create_post_meta'', ''delete_post_meta'']"

definition wooMethods :: "string list" where
  "wooMethods =
     [''get_products'', ''get_product'', ''create_product'', ''update_product'',
      ''delete_product'', ''get_orders'', ''get_order'', ''create_order'', ''update_order'',
      ''delete_order'', ''get_customers'', ''get_customer'', ''create_customer'',
      ''update_customer'', ''delete_customer'', ''get_sales_report'',
      ''get_products_report'', ''get_orders_report'', ''get_categories_report'',
      ''get_customers_report'', ''get_stock_report'', ''get_coupons_report'',
      ''get_taxes_report'',
      ''get_shipping_zones'', ''get_shipping_zone'', ''create_shipping_zone'',
      ''update_shipping_zone'', ''delete_shipping_zone'', ''get_shipping_methods'',
      ''get_shipping_zone_methods'', ''create_shipping_zone_method'',
      ''update_shipping_zone_method'', ''delete_shipping_zone_method'',
      ''get_shipping_zone_locations'', ''update_shipping_zone_locations'',
      ''get_tax_classes'', ''create_tax_class'', ''delete_tax_class'', ''get_tax_rates'',
      ''get_tax_rate'', ''create_tax_rate'', ''update_tax_rate'', ''delete_tax_rate'',
      ''get_coupons'', ''get_coupon'', ''create_coupon'', ''update_coupon'',
      ''delete_coupon'',
      ''get_order_notes'', ''get_order_note'', ''create_order_note'', ''delete_order_note'',
      ''get_order_refunds'', ''get_order_refund'', ''create_order_refund'',
      ''delete_order_refund'',
      ''get_product_variations'', ''get_product_variation'', ''create_product_variation'',
      ''update_product_variation'', ''delete_product_variation'',
      ''get_product_attributes'', ''get_product_attribute'', ''create_product_attribute'',
      ''update_product_attribute'', ''delete_product_attribute'',
      ''get_attribute_terms'', ''get_attribute_term'', ''create_attribute_term'',
      ''update_attribute_term'', ''delete_attribute_term'',
      ''get_product_categories'', ''get_product_category'', ''create_product_category'',
      ''update_product_category'', ''delete_product_category'',
      ''get_product_tags'', ''get_product_tag'', ''create_product_tag'',
      ''update_product_tag'', ''delete_product_tag'',
      ''get_product_reviews'', ''get_product_review'', ''create_product_review'',
      ''update_product_review'', ''delete_product_review'',
      ''get_payment_gateways'', ''get_payment_gateway'', ''update_payment_gateway'',
      ''get_settings'', ''get_setting_options'', ''update_setting_option'',
      ''get_system_status'', ''get_system_status_tools'', ''run_system_status_tool'',
      ''get_data'', ''get_continents'', ''get_countries'', ''get_currencies'',
      ''get_current_currency'',
      ''get_product_meta'', ''update_product_meta'', ''create_product_meta'',
      ''delete_product_meta'',
      ''get_order_meta'', ''update_order_meta'', ''create_order_meta'',
      ''delete_order_meta'',
      ''get_customer_meta'', ''update_customer_meta'', ''create_customer_meta'',
      ''delete_customer_meta'']"

text \<open>The two \<open>axios.create\<close> of the dispatcher.\<close>

definition wp_client :: "jsval \<Rightarrow> jsval \<Rightarrow> jsval \<Rightarrow> axios_client" where
  "wp_client siteUrl username password =
     \<lparr>client_baseURL = js_to_string siteUrl @ ''/wp-json/wp/v2'',
      client_params = [],
      client_auth = None,
      client_headers =
        [(''Authorization'',
          ''Basic '' @ base64 (js_to_string username @ '':'' @ js_to_string password)),
         (''Content-Type'', ''application/json'')]\<rparr>"

definition woo_client :: "jsval \<Rightarrow> jsval \<Rightarrow> jsval \<Rightarrow> axios_client" where
  "woo_client siteUrl consumerKey consumerSecret =
     \<lparr>client_baseURL = js_to_string siteUrl @ ''/wp-json/wc/v3'',
      client_params = [(''consumer_key'', consumerKey), (''consumer_secret'', consumerSecret)],
      client_auth = None,
      client_headers = [(''Content-Type'', ''application/json'')]\<rparr>"

subsection \<open>The \<open>switch\<close>, section by section\<close>

text \<open>
  Every \<open>case\<close> of the \<open>switch\<close> ends in \<open>return\<close> or \<open>throw\<close>, and the labels are
  distinct, so the \<open>switch\<close> is a chain of tests on \<open>method\<close>. It is written in the
  sections the source marks with comments, each giving \<open>None\<close> when none of its labels
  is \<open>method\<close>. \<open>interp ps k\<close> is the \<open>${params.k}\<close> of a template literal.
\<close>

abbreviation (input) interp :: "jsval \<Rightarrow> string \<Rightarrow> string" where
  "interp ps k \<equiv> js_to_string (js_get ps k)"

text \<open>\<open>{per_page: params.perPage || 10, page: params.page || 1, ...params.filters}\<close>\<close>

definition page_query :: "jsval \<Rightarrow> (string \<times> jsval) list" where
  "page_query ps =
     obj_spread
       [(''per_page'', js_or (js_get ps ''perPage'') (JNum 10)),
        (''page'', js_or (js_get ps ''page'') (JNum 1))]
       (js_get ps ''filters'')"

text \<open>The same with \<open>period\<close>, \<open>date_min\<close> and \<open>date_max\<close> in front (four of the reports).\<close>

definition report_query :: "jsval \<Rightarrow> (string \<times> jsval) list" where
  "report_query ps =
     obj_spread
       [(''period'', js_or (js_get ps ''period'') (JStr ''month'')),
        (''date_min'', js_or (js_get ps ''dateMin'') (JStr [])),
        (''date_max'', js_or (js_get ps ''dateMax'') (JStr [])),
        (''per_page'', js_or (js_get ps ''perPage'') (JNum 10)),
        (''page'', js_or (js_get ps ''page'') (JNum 1))]
       (js_get ps ''filters'')"

text \<open>\<open>{force: params.force || true}\<close> and \<open>{force: params.force || false}\<close>\<close>

definition force_or_true :: "jsval \<Rightarrow> (string \<times> jsval) list" where
  "force_or_true ps = [(''force'', js_or (js_get ps ''force'') (JBool True))]"

definition force_or_false :: "jsval \<Rightarrow> (string \<times> jsval) list" where
  "force_or_false ps = [(''force'', js_or (js_get ps ''force'') (JBool False))]"

definition switch_posts :: "axios_client \<Rightarrow> jsval \<Rightarrow> jsval \<Rightarrow> script option" where
  "switch_posts cl m ps =
    (if m = JStr ''create_post'' then Some
       (if \<not> truthy (js_get ps ''title'') \<or> \<not> truthy (js_get ps ''content'')
        then Throw (Error ''Title and content are required for creating a post'')
        else await_post cl ''/posts''
               (JObj [(''title'', js_get ps ''title''), (''content'', js_get ps ''content''),
                      (''status'', js_or (js_get ps ''status'') (JStr ''draft''))])
               Return)
     else if m = JStr ''get_posts'' then Some
       (await_get cl ''/posts''
          (Some [(''per_page'', js_or (js_get ps ''perPage'') (JNum 10)),
                 (''page'', js_or (js_get ps ''page'') (JNum 1))])
          Return)
     else if m = JStr ''update_post'' then Some
       (require (js_get ps ''postId'') ''Post ID is required for updating a post''
         (await_post cl (''/posts/'' @ interp ps ''postId'')
            (JObj ((if truthy (js_get ps ''title'') then [(''title'', js_get ps ''title'')] else [])
                 @ (if truthy (js_get ps ''content'') then [(''content'', js_get ps ''content'')] else [])
                 @ (if truthy (js_get ps ''status'') then [(''status'', js_get ps ''status'')] else [])))
            Return))
     else None)"

definition switch_products :: "axios_client \<Rightarrow> jsval \<Rightarrow> jsval \<Rightarrow> script option" where
  "switch_products cl m ps =
    (if m = JStr ''get_products'' then Some
       (await_get cl ''/products'' (Some (page_query ps)) Return)
     else if m = JStr ''get_product'' then Some
       (require (js_get ps ''productId'') ''Product ID is required''
         (await_get cl (''/products/'' @ interp ps ''productId'') None Return))
     else if m = JStr ''create_product'' then Some
       (require (js_get ps ''productData'') ''Product data is required for creating a product''
         (await_post cl ''/products'' (js_get ps ''productData'') Return))
     else if m = JStr ''update_product'' then Some
       (require (js_get ps ''productId'') ''Product ID is required for updating a product''
         (require (js_get ps ''productData'') ''Product data is required for updating a product''
           (await_put cl (''/products/'' @ interp ps ''productId'') (js_get ps ''productData'')
              Return)))
     else if m = JStr ''delete_product'' then Some
       (require (js_get ps ''productId'') ''Product ID is required for deleting a product''
         (await_delete cl (''/products/'' @ interp ps ''productId'')
            (Some (force_or_false ps)) Return))
     else None)"

definition switch_orders :: "axios_client \<Rightarrow> jsval \<Rightarrow> jsval \<Rightarrow> script option" where
  "switch_orders cl m ps =
    (if m = JStr ''get_orders'' then Some
       (await_get cl ''/orders'' (Some (page_query ps)) Return)
     else if m = JStr ''get_order'' then Some
       (require (js_get ps ''orderId'') ''Order ID is required''
         (await_get cl (''/orders/'' @ interp ps ''orderId'') None Return))
     else if m = JStr ''create_order'' then Some
       (require (js_get ps ''orderData'') ''Order data is required for creating an order''
         (await_post cl ''/orders'' (js_get ps ''orderData'') Return))
     else if m = JStr ''update_order'' then Some
       (require (js_get ps ''orderId'') ''Order ID is required for updating an order''
         (require (js_get ps ''orderData'') ''Order data is required for updating an order''
           (await_put cl (''/orders/'' @ interp ps ''orderId'') (js_get ps ''orderData'')
              Return)))
     else if m = JStr ''delete_order'' then Some
       (require (js_get ps ''orderId'') ''Order ID is required for deleting an order''
         (await_delete cl (''/orders/'' @ interp ps ''orderId'')
            (Some (force_or_false ps)) Return))
     else None)"

definition switch_customers :: "axios_client \<Rightarrow> jsval \<Rightarrow> jsval \<Rightarrow> script option" where
  "switch_customers cl m ps =
    (if m = JStr ''get_customers'' then Some
       (await_get cl ''/customers'' (Some (page_query ps)) Return)
     else if m = JStr ''get_customer'' then Some
       (require (js_get ps ''customerId'') ''Customer ID is required''
         (await_get cl (''/customers/'' @ interp ps ''customerId'') None Return))
     else if m = JStr ''create_customer'' then Some
       (require (js_get ps ''customerData'') ''Customer data is required for creating a customer''
         (await_post cl ''/customers'' (js_get ps ''customerData'') Return))
     else if m = JStr ''update_customer'' then Some
       (require (js_get ps ''customerId'') ''Customer ID is required for updating a customer''
         (require (js_get ps ''customerData'') ''Customer data is required for updating a customer''
           (await_put cl (''/customers/'' @ interp ps ''customerId'')
              (js_get ps ''customerData'') Return)))
     else if m = JStr ''delete_customer'' then Some
       (require (js_get ps ''customerId'') ''Customer ID is required for deleting a customer''
         (await_delete cl (''/customers/'' @ interp ps ''customerId'')
            (Some (force_or_false ps)) Return))
     else None)"

definition switch_reports :: "axios_client \<Rightarrow> jsval \<Rightarrow> jsval \<Rightarrow> script option" where
  "switch_reports cl m ps =
    (if m = JStr ''get_sales_report'' then Some
       (await_get cl ''/reports/sales''
          (Some (obj_spread
                   [(''period'', js_or (js_get ps ''period'') (JStr ''month'')),
                    (''date_min'', js_or (js_get ps ''dateMin'') (JStr [])),
                    (''date_max'', js_or (js_get ps ''dateMax'') (JStr []))]
                   (js_get ps ''filters'')))
          Return)
     else if m = JStr ''get_products_report'' then Some
       (await_get cl ''/reports/products'' (Some (report_query ps)) Return)
     else if m = JStr ''get_orders_report'' then Some
       (await_get cl ''/reports/orders'' (Some (report_query ps)) Return)
     else if m = JStr ''get_categories_report'' then Some
       (await_get cl ''/reports/categories'' (Some (page_query ps)) Return)
     else if m = JStr ''get_customers_report'' then Some
       (await_get cl ''/reports/customers'' (Some (page_query ps)) Return)
     else if m = JStr ''get_stock_report'' then Some
       (await_get cl ''/reports/stock'' (Some (page_query ps)) Return)
     else if m = JStr ''get_coupons_report'' then Some
       (await_get cl ''/reports/coupons'' (Some (report_query ps)) Return)
     else if m = JStr ''get_taxes_report'' then Some
       (await_get cl ''/reports/taxes'' (Some (report_query ps)) Return)
     else None)"

definition switch_shipping :: "axios_client \<Rightarrow> jsval \<Rightarrow> jsval \<Rightarrow> script option" where
  "switch_shipping cl m ps =
    (if m = JStr ''get_shipping_zones'' then Some
       (await_get cl ''/shipping/zones'' (Some (obj_spread [] (js_get ps ''filters''))) Return)
     else if m = JStr ''get_shipping_zone'' then Some
       (require (js_get ps ''zoneId'') ''Zone ID is required''
         (await_get cl (''/shipping/zones/'' @ interp ps ''zoneId'') None Return))
     else if m = JStr ''create_shipping_zone'' then Some
       (require (js_get ps ''zoneData'') ''Zone data is required for creating a shipping zone''
         (await_post cl ''/shipping/zones'' (js_get ps ''zoneData'') Return))
     else if m = JStr ''update_shipping_zone'' then Some
       (require (js_get ps ''zoneId'') ''Zone ID is required for updating a shipping zone''
         (require (js_get ps ''zoneData'') ''Zone data is required for updating a shipping zone''
           (await_put cl (''/shipping/zones/'' @ interp ps ''zoneId'') (js_get ps ''zoneData'')
              Return)))
     else if m = JStr ''delete_shipping_zone'' then Some
       (require (js_get ps ''zoneId'') ''Zone ID is required for deleting a shipping zone''
         (await_delete cl (''/shipping/zones/'' @ interp ps ''zoneId'')
            (Some (force_or_true ps)) Return))
     else if m = JStr ''get_shipping_methods'' then Some
       (await_get cl ''/shipping_methods'' None Return)
     else if m = JStr ''get_shipping_zone_methods'' then Some
       (require (js_get ps ''zoneId'') ''Zone ID is required''
         (await_get cl (''/shipping/zones/'' @ interp ps ''zoneId'' @ ''/methods'') None Return))
     else if m = JStr ''create_shipping_zone_method'' then Some
       (require (js_get ps ''zoneId'') ''Zone ID is required''
         (require (js_get ps ''methodData'')
            ''Method data is required for creating a shipping method''
           (await_post cl (''/shipping/zones/'' @ interp ps ''zoneId'' @ ''/methods'')
              (js_get ps ''methodData'') Return)))
     else if m = JStr ''update_shipping_zone_method'' then Some
       (require (js_get ps ''zoneId'') ''Zone ID is required''
         (require (js_get ps ''instanceId'') ''Method instance ID is required''
           (require (js_get ps ''methodData'')
              ''Method data is required for updating a shipping method''
             (await_put cl
                (''/shipping/zones/'' @ interp ps ''zoneId'' @ ''/methods/''
                  @ interp ps ''instanceId'')
                (js_get ps ''methodData'') Return))))
     else if m = JStr ''delete_shipping_zone_method'' then Some
       (require (js_get ps ''zoneId'') ''Zone ID is required''
         (require (js_get ps ''instanceId'') ''Method instance ID is required''
           (await_delete cl
              (''/shipping/zones/'' @ interp ps ''zoneId'' @ ''/methods/''
                @ interp ps ''instanceId'')
              (Some (force_or_true ps)) Return)))
     else if m = JStr ''get_shipping_zone_locations'' then Some
       (require (js_get ps ''zoneId'') ''Zone ID is required''
         (await_get cl (''/shipping/zones/'' @ interp ps ''zoneId'' @ ''/locations'') None
            Return))
     else if m = JStr ''update_shipping_zone_locations'' then Some
       (require (js_get ps ''zoneId'') ''Zone ID is required''
         (require (js_get ps ''locations'') ''Locations data is required''
           (await_put cl (''/shipping/zones/'' @ interp ps ''zoneId'' @ ''/locations'')
              (js_get ps ''locations'') Return)))
     else None)"

definition switch_taxes :: "axios_client \<Rightarrow> jsval \<Rightarrow> jsval \<Rightarrow> script option" where
  "switch_taxes cl m ps =
    (if m = JStr ''get_tax_classes'' then Some
       (await_get cl ''/taxes/classes'' None Return)
     else if m = JStr ''create_tax_class'' then Some
       (require (js_get ps ''taxClassData'') ''Tax class data is required''
         (await_post cl ''/taxes/classes'' (js_get ps ''taxClassData'') Return))
     else if m = JStr ''delete_tax_class'' then Some
       (require (js_get ps ''slug'') ''Tax class slug is required''
         (await_delete cl (''/taxes/classes/'' @ interp ps ''slug'')
            (Some (force_or_true ps)) Return))
     else if m = JStr ''get_tax_rates'' then Some
       (await_get cl ''/taxes'' (Some (page_query ps)) Return)
     else if m = JStr ''get_tax_rate'' then Some
       (require (js_get ps ''rateId'') ''Tax rate ID is required''
         (await_get cl (''/taxes/'' @ interp ps ''rateId'') None Return))
     else if m = JStr ''create_tax_rate'' then Some
       (require (js_get ps ''taxRateData'') ''Tax rate data is required''
         (await_post cl ''/taxes'' (js_get ps ''taxRateData'') Return))
     else if m = JStr ''update_tax_rate'' then Some
       (require (js_get ps ''rateId'') ''Tax rate ID is required''
         (require (js_get ps ''taxRateData'') ''Tax rate data is required''
           (await_put cl (''/taxes/'' @ interp ps ''rateId'') (js_get ps ''taxRateData'')
              Return)))
     else if m = JStr ''delete_tax_rate'' then Some
       (require (js_get ps ''rateId'') ''Tax rate ID is required''
         (await_delete cl (''/taxes/'' @ interp ps ''rateId'')
            (Some (force_or_true ps)) Return))
     else None)"

definition switch_coupons :: "axios_client \<Rightarrow> jsval \<Rightarrow> jsval \<Rightarrow> script option" where
  "switch_coupons cl m ps =
    (if m = JStr ''get_coupons'' then Some
       (await_get cl ''/coupons'' (Some (page_query ps)) Return)
     else if m = JStr ''get_coupon'' then Some
       (require (js_get ps ''couponId'') ''Coupon ID is required''
         (await_get cl (''/coupons/'' @ interp ps ''couponId'') None Return))
     else if m = JStr ''create_coupon'' then Some
       (require (js_get ps ''couponData'') ''Coupon data is required''
         (await_post cl ''/coupons'' (js_get ps ''couponData'') Return))
     else if m = JStr ''update_coupon'' then Some
       (require (js_get ps ''couponId'') ''Coupon ID is required''
         (require (js_get ps ''couponData'') ''Coupon data is required''
           (await_put cl (''/coupons/'' @ interp ps ''couponId'') (js_get ps ''couponData'')
              Return)))
     else if m = JStr ''delete_coupon'' then Some
       (require (js_get ps ''couponId'') ''Coupon ID is required''
         (await_delete cl (''/coupons/'' @ interp ps ''couponId'')
            (Some (force_or_true ps)) Return))
     else None)"

definition switch_order_notes :: "axios_client \<Rightarrow> jsval \<Rightarrow> jsval \<Rightarrow> script option" where
  "switch_order_notes cl m ps =
    (if m = JStr ''get_order_notes'' then Some
       (require (js_get ps ''orderId'') ''Order ID is required''
         (await_get cl (''/orders/'' @ interp ps ''orderId'' @ ''/notes'')
            (Some (page_query ps)) Return))
     else if m = JStr ''get_order_note'' then Some
       (require (js_get ps ''orderId'') ''Order ID is required''
         (require (js_get ps ''noteId'') ''Note ID is required''
           (await_get cl
              (''/orders/'' @ interp ps ''orderId'' @ ''/notes/'' @ interp ps ''noteId'')
              None Return)))
     else if m = JStr ''create_order_note'' then Some
       (require (js_get ps ''orderId'') ''Order ID is required''
         (require (js_get ps ''noteData'') ''Note data is required''
           (await_post cl (''/orders/'' @ interp ps ''orderId'' @ ''/notes'')
              (js_get ps ''noteData'') Return)))
     else if m = JStr ''delete_order_note'' then Some
       (require (js_get ps ''orderId'') ''Order ID is required''
         (require (js_get ps ''noteId'') ''Note ID is required''
           (await_delete cl
              (''/orders/'' @ interp ps ''orderId'' @ ''/notes/'' @ interp ps ''noteId'')
              (Some (force_or_true ps)) Return)))
     else None)"

definition switch_order_refunds :: "axios_client \<Rightarrow> jsval \<Rightarrow> jsval \<Rightarrow> script option" where
  "switch_order_refunds cl m ps =
    (if m = JStr ''get_order_refunds'' then Some
       (require (js_get ps ''orderId'') ''Order ID is required''
         (await_get cl (''/orders/'' @ interp ps ''orderId'' @ ''/refunds'')
            (Some (page_query ps)) Return))
     else if m = JStr ''get_order_refund'' then Some
       (require (js_get ps ''orderId'') ''Order ID is required''
         (require (js_get ps ''refundId'') ''Refund ID is required''
           (await_get cl
              (''/orders/'' @ interp ps ''orderId'' @ ''/refunds/'' @ interp ps ''refundId'')
              None Return)))
     else if m = JStr ''create_order_refund'' then Some
       (require (js_get ps ''orderId'') ''Order ID is required''
         (require (js_get ps ''refundData'') ''Refund data is required''
           (await_post cl (''/orders/'' @ interp ps ''orderId'' @ ''/refunds'')
              (js_get ps ''refundData'') Return)))
     else if m = JStr ''delete_order_refund'' then Some
       (require (js_get ps ''orderId'') ''Order ID is required''
         (require (js_get ps ''refundId'') ''Refund ID is required''
           (await_delete cl
              (''/orders/'' @ interp ps ''orderId'' @ ''/refunds/'' @ interp ps ''refundId'')
              (Some (force_or_true ps)) Return)))
     else None)"

definition switch_variations :: "axios_client \<Rightarrow> jsval \<Rightarrow> jsval \<Rightarrow> script option" where
  "switch_variations cl m ps =
    (if m = JStr ''get_product_variations'' then Some
       (require (js_get ps ''productId'') ''Product ID is required''
         (await_get cl (''/products/'' @ interp ps ''productId'' @ ''/variations'')
            (Some (page_query ps)) Return))
     else if m = JStr ''get_product_variation'' then Some
       (require (js_get ps ''productId'') ''Product ID is required''
         (require (js_get ps ''variationId'') ''Variation ID is required''
           (await_get cl
              (''/products/'' @ interp ps ''productId'' @ ''/variations/''
                @ interp ps ''variationId'')
              None Return)))
     else if m = JStr ''create_product_variation'' then Some
       (require (js_get ps ''productId'') ''Product ID is required''
         (require (js_get ps ''variationData'') ''Variation data is required''
           (await_post cl (''/products/'' @ interp ps ''productId'' @ ''/variations'')
              (js_get ps ''variationData'') Return)))
     else if m = JStr ''update_product_variation'' then Some
       (require (js_get ps ''productId'') ''Product ID is required''
         (require (js_get ps ''variationId'') ''Variation ID is required''
           (require (js_get ps ''variationData'') ''Variation data is required''
             (await_put cl
                (''/products/'' @ interp ps ''productId'' @ ''/variations/''
                  @ interp ps ''variationId'')
                (js_get ps ''variationData'') Return))))
     else if m = JStr ''delete_product_variation'' then Some
       (require (js_get ps ''productId'') ''Product ID is required''
         (require (js_get ps ''variationId'') ''Variation ID is required''
           (await_delete cl
              (''/products/'' @ interp ps ''productId'' @ ''/variations/''
                @ interp ps ''variationId'')
              (Some (force_or_true ps)) Return)))
     else None)"

definition switch_attributes :: "axios_client \<Rightarrow> jsval \<Rightarrow> jsval \<Rightarrow> script option" where
  "switch_attributes cl m ps =
    (if m = JStr ''get_product_attributes'' then Some
       (await_get cl ''/products/attributes'' (Some (page_query ps)) Return)
     else if m = JStr ''get_product_attribute'' then Some
       (require (js_get ps ''attributeId'') ''Attribute ID is required''
         (await_get cl (''/products/attributes/'' @ interp ps ''attributeId'') None Return))
     else if m = JStr ''create_product_attribute'' then Some
       (require (js_get ps ''attributeData'') ''Attribute data is required''
         (await_post cl ''/products/attributes'' (js_get ps ''attributeData'') Return))
     else if m = JStr ''update_product_attribute'' then Some
       (require (js_get ps ''attributeId'') ''Attribute ID is required''
         (require (js_get ps ''attributeData'') ''Attribute data is required''
           (await_put cl (''/products/attributes/'' @ interp ps ''attributeId'')
              (js_get ps ''attributeData'') Return)))
     else if m = JStr ''delete_product_attribute'' then Some
       (require (js_get ps ''attributeId'') ''Attribute ID is required''
         (await_delete cl (''/products/attributes/'' @ interp ps ''attributeId'')
            (Some (force_or_true ps)) Return))
     else None)"

definition switch_attribute_terms :: "axios_client \<Rightarrow> jsval \<Rightarrow> jsval \<Rightarrow> script option" where
  "switch_attribute_terms cl m ps =
    (if m = JStr ''get_attribute_terms'' then Some
       (require (js_get ps ''attributeId'') ''Attribute ID is required''
         (await_get cl (''/products/attributes/'' @ interp ps ''attributeId'' @ ''/terms'')
            (Some (page_query ps)) Return))
     else if m = JStr ''get_attribute_term'' then Some
       (require (js_get ps ''attributeId'') ''Attribute ID is required''
         (require (js_get ps ''termId'') ''Term ID is required''
           (await_get cl
              (''/products/attributes/'' @ interp ps ''attributeId'' @ ''/terms/''
                @ interp ps ''termId'')
              None Return)))
     else if m = JStr ''create_attribute_term'' then Some
       (require (js_get ps ''attributeId'') ''Attribute ID is required''
         (require (js_get ps ''termData'') ''Term data is required''
           (await_post cl (''/products/attributes/'' @ interp ps ''attributeId'' @ ''/terms'')
              (js_get ps ''termData'') Return)))
     else if m = JStr ''update_attribute_term'' then Some
       (require (js_get ps ''attributeId'') ''Attribute ID is required''
         (require (js_get ps ''termId'') ''Term ID is required''
           (require (js_get ps ''termData'') ''Term data is required''
             (await_put cl
                (''/products/attributes/'' @ interp ps ''attributeId'' @ ''/terms/''
                  @ interp ps ''termId'')
                (js_get ps ''termData'') Return))))
     else if m = JStr ''delete_attribute_term'' then Some
       (require (js_get ps ''attributeId'') ''Attribute ID is required''
         (require (js_get ps ''termId'') ''Term ID is required''
           (await_delete cl
              (''/products/attributes/'' @ interp ps ''attributeId'' @ ''/terms/''
                @ interp ps ''termId'')
              (Some (force_or_true ps)) Return)))
     else None)"

definition switch_categories :: "axios_client \<Rightarrow> jsval \<Rightarrow> jsval \<Rightarrow> script option" where
  "switch_categories cl m ps =
    (if m = JStr ''get_product_categories'' then Some
       (await_get cl ''/products/categories'' (Some (page_query ps)) Return)
     else if m = JStr ''get_product_category'' then Some
       (require (js_get ps ''categoryId'') ''Category ID is required''
         (await_get cl (''/products/categories/'' @ interp ps ''categoryId'') None Return))
     else if m = JStr ''create_product_category'' then Some
       (require (js_get ps ''categoryData'') ''Category data is required''
         (await_post cl ''/products/categories'' (js_get ps ''categoryData'') Return))
     else if m = JStr ''update_product_category'' then Some
       (require (js_get ps ''categoryId'') ''Category ID is required''
         (require (js_get ps ''categoryData'') ''Category data is required''
           (await_put cl (''/products/categories/'' @ interp ps ''categoryId'')
              (js_get ps ''categoryData'') Return)))
     else if m = JStr ''delete_product_category'' then Some
       (require (js_get ps ''categoryId'') ''Category ID is required''
         (await_delete cl (''/products/categories/'' @ interp ps ''categoryId'')
            (Some (force_or_true ps)) Return))
     else None)"

definition switch_tags :: "axios_client \<Rightarrow> jsval \<Rightarrow> jsval \<Rightarrow> script option" where
  "switch_tags cl m ps =
    (if m = JStr ''get_product_tags'' then Some
       (await_get cl ''/products/tags'' (Some (page_query ps)) Return)
     else if m = JStr ''get_product_tag'' then Some
       (require (js_get ps ''tagId'') ''Tag ID is required''
         (await_get cl (''/products/tags/'' @ interp ps ''tagId'') None Return))
     else if m = JStr ''create_product_tag'' then Some
       (require (js_get ps ''tagData'') ''Tag data is required''
         (await_post cl ''/products/tags'' (js_get ps ''tagData'') Return))
     else if m = JStr ''update_product_tag'' then Some
       (require (js_get ps ''tagId'') ''Tag ID is required''
         (require (js_get ps ''tagData'') ''Tag data is required''
           (await_put cl (''/products/tags/'' @ interp ps ''tagId'') (js_get ps ''tagData'')
              Return)))
     else if m = JStr ''delete_product_tag'' then Some
       (require (js_get ps ''tagId'') ''Tag ID is required''
         (await_delete cl (''/products/tags/'' @ interp ps ''tagId'')
            (Some (force_or_true ps)) Return))
     else None)"

text \<open>
  The path of one review:
  \<open>params.productId ? `/products/${params.productId}/reviews/${params.reviewId}`
                     : `/products/reviews/${params.reviewId}`\<close>
\<close>

definition review_path :: "jsval \<Rightarrow> string" where
  "review_path ps =
     (if truthy (js_get ps ''productId'')
      then ''/products/'' @ interp ps ''productId'' @ ''/reviews/'' @ interp ps ''reviewId''
      else ''/products/reviews/'' @ interp ps ''reviewId'')"

definition switch_reviews :: "axios_client \<Rightarrow> jsval \<Rightarrow> jsval \<Rightarrow> script option" where
  "switch_reviews cl m ps =
    (if m = JStr ''get_product_reviews'' then Some
       (await_get cl
          (if truthy (js_get ps ''productId'')
           then ''/products/'' @ interp ps ''productId'' @ ''/reviews''
           else ''/products/reviews'')
          (Some (page_query ps)) Return)
     else if m = JStr ''get_product_review'' then Some
       (require (js_get ps ''reviewId'') ''Review ID is required''
         (await_get cl (review_path ps) None Return))
     else if m = JStr ''create_product_review'' then Some
       (require (js_get ps ''productId'') ''Product ID is required''
         (require (js_get ps ''reviewData'') ''Review data is required''
           (await_post cl (''/products/'' @ interp ps ''productId'' @ ''/reviews'')
              (js_get ps ''reviewData'') Return)))
     else if m = JStr ''update_product_review'' then Some
       (require (js_get ps ''reviewId'') ''Review ID is required''
         (require (js_get ps ''reviewData'') ''Review data is required''
           (await_put cl (review_path ps) (js_get ps ''reviewData'') Return)))
     else if m = JStr ''delete_product_review'' then Some
       (require (js_get ps ''reviewId'') ''Review ID is required''
         (await_delete cl (review_path ps) (Some (force_or_true ps)) Return))
     else None)"

definition switch_store :: "axios_client \<Rightarrow> jsval \<Rightarrow> jsval \<Rightarrow> script option" where
  "switch_store cl m ps =
    (if m = JStr ''get_payment_gateways'' then Some
       (await_get cl ''/payment_gateways'' None Return)
     else if m = JStr ''get_payment_gateway'' then Some
       (require (js_get ps ''gatewayId'') ''Gateway ID is required''
         (await_get cl (''/payment_gateways/'' @ interp ps ''gatewayId'') None Return))
     else if m = JStr ''update_payment_gateway'' then Some
       (require (js_get ps ''gatewayId'') ''Gateway ID is required''
         (require (js_get ps ''gatewayData'') ''Gateway data is required''
           (await_put cl (''/payment_gateways/'' @ interp ps ''gatewayId'')
              (js_get ps ''gatewayData'') Return)))
     else if m = JStr ''get_settings'' then Some
       (await_get cl ''/settings'' None Return)
     else if m = JStr ''get_setting_options'' then Some
       (require (js_get ps ''group'') ''Settings group is required''
         (await_get cl (''/settings/'' @ interp ps ''group'') None Return))
     else if m = JStr ''update_setting_option'' then Some
       (require (js_get ps ''group'') ''Settings group is required''
         (require (js_get ps ''id'') ''Setting ID is required''
           (require (js_get ps ''settingData'') ''Setting data is required''
             (await_put cl (''/settings/'' @ interp ps ''group'' @ ''/'' @ interp ps ''id'')
                (js_get ps ''settingData'') Return))))
     else if m = JStr ''get_system_status'' then Some
       (await_get cl ''/system_status'' None Return)
     else if m = JStr ''get_system_status_tools'' then Some
       (await_get cl ''/system_status/tools'' None Return)
     else if m = JStr ''run_system_status_tool'' then Some
       (require (js_get ps ''toolId'') ''Tool ID is required''
         (await_put cl (''/system_status/tools/'' @ interp ps ''toolId'') JUndef Return))
     else if m = JStr ''get_data'' then Some
       (await_get cl ''/data'' None Return)
     else if m = JStr ''get_continents'' then Some
       (await_get cl ''/data/continents'' None Return)
     else if m = JStr ''get_countries'' then Some
       (await_get cl ''/data/countries'' None Return)
     else if m = JStr ''get_currencies'' then Some
       (await_get cl ''/data/currencies'' None Return)
     else if m = JStr ''get_current_currency'' then Some
       (await_get cl ''/data/currencies/current'' None Return)
     else None)"

text \<open>\<open>if (params.metaValue === undefined) throw new Error(msg)\<close>\<close>

definition require_defined :: "jsval \<Rightarrow> string \<Rightarrow> script \<Rightarrow> script" where
  "require_defined v msg k = (if v = JUndef then Throw (Error msg) else k)"

definition switch_post_meta :: "axios_client \<Rightarrow> jsval \<Rightarrow> jsval \<Rightarrow> script option" where
  "switch_post_meta cl m ps =
    (if m = JStr ''get_post_meta'' then Some
       (require (js_get ps ''postId'') ''Post ID is required''
         (await_get cl
            (if truthy (js_get ps ''metaKey'')
             then ''/posts/'' @ interp ps ''postId'' @ ''/meta/'' @ interp ps ''metaKey''
             else ''/posts/'' @ interp ps ''postId'' @ ''/meta'')
            None Return))
     else if m = JStr ''create_post_meta'' then Some
       (require (js_get ps ''postId'') ''Post ID is required''
         (require (js_get ps ''metaKey'') ''Meta key is required''
           (require_defined (js_get ps ''metaValue'') ''Meta value is required''
             (await_post cl (''/posts/'' @ interp ps ''postId'' @ ''/meta'')
                (JObj [(''key'', js_get ps ''metaKey''), (''value'', js_get ps ''metaValue'')])
                Return))))
     else if m = JStr ''update_post_meta'' then Some
       (require (js_get ps ''postId'') ''Post ID is required''
         (require (js_get ps ''metaId'') ''Meta ID is required''
           (require_defined (js_get ps ''metaValue'') ''Meta value is required''
             (await_put cl (''/posts/'' @ interp ps ''postId'' @ ''/meta/'' @ interp ps ''metaId'')
                (JObj [(''value'', js_get ps ''metaValue'')])
                Return))))
     else if m = JStr ''delete_post_meta'' then Some
       (require (js_get ps ''postId'') ''Post ID is required''
         (require (js_get ps ''metaId'') ''Meta ID is required''
           (await_delete cl
              (''/posts/'' @ interp ps ''postId'' @ ''/meta/'' @ interp ps ''metaId'')
              (Some (force_or_true ps)) Return)))
     else None)"

subsection \<open>Meta data of products, orders and customers\<close>

text \<open>
  \<open>metaData.filter((meta) => keep(meta.key))\<close>: every element is visited, and reading
  \<open>.key\<close> of a \<open>null\<close> element throws.
\<close>

fun meta_filter :: "(jsval \<Rightarrow> bool) \<Rightarrow> jsval list \<Rightarrow> js_error + jsval list" where
  "meta_filter keep [] = Inr []"
| "meta_filter keep (x # xs) =
     (if nullish x then Inl null_read
      else case meta_filter keep xs of
             Inl e \<Rightarrow> Inl e
           | Inr ys \<Rightarrow> Inr (if keep (js_get x ''key'') then x # ys else ys))"

text \<open>
  \<open>metaData.findIndex((meta) => meta.key === key)\<close>: the index of the first match
  (\<open>None\<close> for \<open>-1\<close>); the elements after it are not visited.
\<close>

fun meta_findIndex :: "jsval \<Rightarrow> jsval list \<Rightarrow> js_error + nat option" where
  "meta_findIndex key [] = Inr None"
| "meta_findIndex key (x # xs) =
     (if nullish x then Inl null_read
      else if strict_eq (js_get x ''key'') key then Inr (Some 0)
      else case meta_findIndex key xs of
             Inl e \<Rightarrow> Inl e
           | Inr None \<Rightarrow> Inr None
           | Inr (Some i) \<Rightarrow> Inr (Some (Suc i)))"

text \<open>
  \<open>entry.value = v\<close>. The entry found by \<open>findIndex\<close> has a \<open>key\<close> property equal to a
  truthy value, so it is an object.
\<close>

fun set_value :: "jsval \<Rightarrow> jsval \<Rightarrow> jsval" where
  "set_value (JObj kvs) v = JObj (obj_set kvs ''value'' v)"
| "set_value x v = x"

text \<open>
  The sequence that create/update puts back: \<open>entity.meta_data || []\<close> with the value of
  the first entry of that key replaced, or with a new entry pushed at the end.
\<close>

definition upsert_meta :: "jsval \<Rightarrow> jsval \<Rightarrow> jsval \<Rightarrow> js_error + jsval list" where
  "upsert_meta entity key v =
     (if nullish entity then Inl null_read
      else case js_or (js_get entity ''meta_data'') (JArr []) of
             JArr xs \<Rightarrow>
               (case meta_findIndex key xs of
                  Inl e \<Rightarrow> Inl e
                | Inr (Some i) \<Rightarrow> Inr (xs[i := set_value (xs ! i) v])
                | Inr None \<Rightarrow> Inr (xs @ [JObj [(''key'', key), (''value'', v)]]))
           | other \<Rightarrow> Inl not_a_function)"

text \<open>\<open>entity.meta_data || []\<close> without the entries of that key.\<close>

definition remove_meta :: "jsval \<Rightarrow> jsval \<Rightarrow> js_error + jsval list" where
  "remove_meta entity key =
     (if nullish entity then Inl null_read
      else case js_or (js_get entity ''meta_data'') (JArr []) of
             JArr xs \<Rightarrow> meta_filter (\<lambda>k. \<not> strict_eq k key) xs
           | other \<Rightarrow> Inl not_a_function)"

text \<open>\<open>return response.data.meta_data\<close>\<close>

definition return_meta_data :: "jsval \<Rightarrow> script" where
  "return_meta_data d = (if nullish d then Throw null_read else Return (js_get d ''meta_data''))"

text \<open>
  The three bodies, the same for products, orders and customers but for the path of the
  entity: read the entity and return its meta data (those of one key when \<open>metaKey\<close> is
  given); read the entity, change the sequence and write it back.
\<close>

definition meta_read :: "axios_client \<Rightarrow> string \<Rightarrow> jsval \<Rightarrow> script" where
  "meta_read cl url ps =
     await_get cl url None (\<lambda>d.
       if nullish d then Throw null_read
       else let md = js_or (js_get d ''meta_data'') (JArr []) in
         if truthy (js_get ps ''metaKey'') then
           (case md of
              JArr xs \<Rightarrow>
                (case meta_filter (\<lambda>k. strict_eq k (js_get ps ''metaKey'')) xs of
                   Inl e \<Rightarrow> Throw e
                 | Inr ys \<Rightarrow> Return (JArr ys))
            | other \<Rightarrow> Throw not_a_function)
         else Return md)"

definition meta_write :: "axios_client \<Rightarrow> string \<Rightarrow> jsval \<Rightarrow> script" where
  "meta_write cl url ps =
     await_get cl url None (\<lambda>d.
       case upsert_meta d (js_get ps ''metaKey'') (js_get ps ''metaValue'') of
         Inl e \<Rightarrow> Throw e
       | Inr md \<Rightarrow> await_put cl url (JObj [(''meta_data'', JArr md)]) return_meta_data)"

definition meta_delete :: "axios_client \<Rightarrow> string \<Rightarrow> jsval \<Rightarrow> script" where
  "meta_delete cl url ps =
     await_get cl url None (\<lambda>d.
       case remove_meta d (js_get ps ''metaKey'') of
         Inl e \<Rightarrow> Throw e
       | Inr md \<Rightarrow> await_put cl url (JObj [(''meta_data'', JArr md)]) return_meta_data)"

definition switch_product_meta :: "axios_client \<Rightarrow> jsval \<Rightarrow> jsval \<Rightarrow> script option" where
  "switch_product_meta cl m ps =
    (if m = JStr ''get_product_meta'' then Some
       (require (js_get ps ''productId'') ''Product ID is required''
         (meta_read cl (''/products/'' @ interp ps ''productId'') ps))
     else if m = JStr ''create_product_meta'' \<or> m = JStr ''update_product_meta'' then Some
       (require (js_get ps ''productId'') ''Product ID is required''
         (require (js_get ps ''metaKey'') ''Meta key is required''
           (require_defined (js_get ps ''metaValue'') ''Meta value is required''
             (meta_write cl (''/products/'' @ interp ps ''productId'') ps))))
     else if m = JStr ''delete_product_meta'' then Some
       (require (js_get ps ''productId'') ''Product ID is required''
         (require (js_get ps ''metaKey'') ''Meta key is required''
           (meta_delete cl (''/products/'' @ interp ps ''productId'') ps)))
     else None)"

definition switch_order_meta :: "axios_client \<Rightarrow> jsval \<Rightarrow> jsval \<Rightarrow> script option" where
  "switch_order_meta cl m ps =
    (if m = JStr ''get_order_meta'' then Some
       (require (js_get ps ''orderId'') ''Order ID is required''
         (meta_read cl (''/orders/'' @ interp ps ''orderId'') ps))
     else if m = JStr ''create_order_meta'' \<or> m = JStr ''update_order_meta'' then Some
       (require (js_get ps ''orderId'') ''Order ID is required''
         (require (js_get ps ''metaKey'') ''Meta key is required''
           (require_defined (js_get ps ''metaValue'') ''Meta value is required''
             (meta_write cl (''/orders/'' @ interp ps ''orderId'') ps))))
     else if m = JStr ''delete_order_meta'' then Some
       (require (js_get ps ''orderId'') ''Order ID is required''
         (require (js_get ps ''metaKey'') ''Meta key is required''
           (meta_delete cl (''/orders/'' @ interp ps ''orderId'') ps)))
     else None)"

definition switch_customer_meta :: "axios_client \<Rightarrow> jsval \<Rightarrow> jsval \<Rightarrow> script option" where
  "switch_customer_meta cl m ps =
    (if m = JStr ''get_customer_meta'' then Some
       (require (js_get ps ''customerId'') ''Customer ID is required''
         (meta_read cl (''/customers/'' @ interp ps ''customerId'') ps))
     else if m = JStr ''create_customer_meta'' \<or> m = JStr ''update_customer_meta'' then Some
       (require (js_get ps ''customerId'') ''Customer ID is required''
         (require (js_get ps ''metaKey'') ''Meta key is required''
           (require_defined (js_get ps ''metaValue'') ''Meta value is required''
             (meta_write cl (''/customers/'' @ interp ps ''customerId'') ps))))
     else if m = JStr ''delete_customer_meta'' then Some
       (require (js_get ps ''customerId'') ''Customer ID is required''
         (require (js_get ps ''metaKey'') ''Meta key is required''
           (meta_delete cl (''/customers/'' @ interp ps ''customerId'') ps)))
     else None)"

subsection \<open>The whole \<open>switch\<close> and the dispatcher\<close>

text \<open>The sections in the order of the source; \<open>default\<close> throws.\<close>

definition switch_sections ::
  "(axios_client \<Rightarrow> jsval \<Rightarrow> jsval \<Rightarrow> script option) list" where
  "switch_sections =
     [switch_posts, switch_products, switch_orders, switch_customers, switch_reports,
      switch_shipping, switch_taxes, switch_coupons, switch_order_notes,
      switch_order_refunds, switch_variations, switch_attributes, switch_attribute_terms,
      switch_categories, switch_tags, switch_reviews, switch_store, switch_post_meta,
      switch_product_meta, switch_order_meta, switch_customer_meta]"

fun first_case ::
  "(axios_client \<Rightarrow> jsval \<Rightarrow> jsval \<Rightarrow> script option) list
     \<Rightarrow> axios_client \<Rightarrow> jsval \<Rightarrow> jsval \<Rightarrow> script" where
  "first_case [] cl m ps = Throw (Error (''Unknown method: '' @ js_to_string m))"
| "first_case (sec # secs) cl m ps =
     (case sec cl m ps of Some s \<Rightarrow> s | None \<Rightarrow> first_case secs cl m ps)"

definition switch_method :: "axios_client \<Rightarrow> jsval \<Rightarrow> jsval \<Rightarrow> script" where
  "switch_method cl m ps = first_case switch_sections cl m ps"

text \<open>
  The body of \<open>try\<close>: the credentials, the check of the site URL, the check of the
  credentials of the family of the method, the client, the \<open>switch\<close>.
\<close>

definition handleWooCommerceRequest_try :: "env \<Rightarrow> jsval \<Rightarrow> jsval \<Rightarrow> script" where
  "handleWooCommerceRequest_try ev m ps =
     (case resolve ev ps of
        Inl e \<Rightarrow> Throw e
      | Inr cr \<Rightarrow>
          if \<not> truthy (cred_siteUrl cr) then
            Throw (Error
              ''WordPress site URL not provided in environment variables or request parameters'')
          else if m \<in> set (map JStr wpMethods) then
            (if \<not> truthy (cred_username cr) \<or> \<not> truthy (cred_password cr) then
               Throw (Error
                 ''WordPress credentials not provided in environment variables or request parameters'')
             else
               switch_method
                 (wp_client (cred_siteUrl cr) (cred_username cr) (cred_password cr)) m ps)
          else if m \<in> set (map JStr wooMethods) then
            (if \<not> truthy (cred_consumerKey cr) \<or> \<not> truthy (cred_consumerSecret cr) then
               Throw (Error
                 ''WooCommerce API credentials not provided in environment variables or request parameters'')
             else
               switch_method
                 (woo_client (cred_siteUrl cr) (cred_consumerKey cr) (cred_consumerSecret cr))
                 m ps)
          else Throw (Error (''Unknown method: '' @ js_to_string m)))"

text \<open>
  \<open>isAxiosError\<close>: an error object with a \<open>message\<close> whose \<open>response\<close> is not undefined.
  The errors thrown by the dispatcher itself have no \<open>response\<close>.
\<close>

fun isAxiosError :: "js_error \<Rightarrow> bool" where
  "isAxiosError (AxiosError f) = (ax_response f \<noteq> None)"
| "isAxiosError e = False"

text \<open>
  The \<open>catch\<close>:
  \<open>throw new Error(`API error: ${error.response?.data?.message || error.message}`)\<close>
  for an axios error, the error itself otherwise.
\<close>

fun response_data :: "js_error \<Rightarrow> jsval" where
  "response_data (AxiosError f) = (case ax_response f of Some d \<Rightarrow> d | None \<Rightarrow> JUndef)"
| "response_data e = JUndef"

definition catch_block :: "js_error \<Rightarrow> js_error" where
  "catch_block e =
     (if isAxiosError e then
        Error (''API error: ''
               @ js_to_string
                   (js_or (opt_get (response_data e) ''message'') (JStr (error_message e))))
      else e)"

definition handleWooCommerceRequest ::
  "'u upstream \<Rightarrow> env \<Rightarrow> jsval \<Rightarrow> jsval \<Rightarrow> 'u \<Rightarrow> (js_error + jsval) \<times> exchange list \<times> 'u" where
  "handleWooCommerceRequest up ev m ps u =
     (case run up (handleWooCommerceRequest_try ev m ps) u of
        (Inl e, tr, u') \<Rightarrow> (Inl (catch_block e), tr, u')
      | (Inr v, tr, u') \<Rightarrow> (Inr v, tr, u'))"

subsection \<open>The HTTP endpoint \<open>POST /message\<close>\<close>

text \<open>
  The three shapes of a JSON-RPC response the adapters build, as \<open>res.json\<close> and
  \<open>JSON.stringify\<close> serialise them: a member whose value is \<open>undefined\<close> is left out.
\<close>

definition json_members :: "(string \<times> jsval) list \<Rightarrow> jsval" where
  "json_members kvs = JObj (filter (\<lambda>kv. snd kv \<noteq> JUndef) kvs)"

definition parse_error_response :: "string \<Rightarrow> jsval" where
  "parse_error_response msg =
     json_members
       [(''jsonrpc'', JStr ''2.0''), (''id'', JNull),
        (''error'', JObj [(''code'', JNum (- 32700)), (''message'', JStr ''Parse error''),
                          (''data'', JStr msg)])]"

definition error_response :: "jsval \<Rightarrow> string \<Rightarrow> jsval" where
  "error_response rid msg =
     json_members
       [(''jsonrpc'', JStr ''2.0''), (''id'', rid),
        (''error'', JObj [(''code'', JNum (- 32000)), (''message'', JStr msg)])]"

definition result_response :: "jsval \<Rightarrow> jsval \<Rightarrow> jsval" where
  "result_response rid res =
     json_members [(''jsonrpc'', JStr ''2.0''), (''id'', rid), (''result'', res)]"

text \<open>
  The first \<open>try\<close> of both adapters, on the parsed request:
  \<open>if (request.jsonrpc !== "2.0") throw new Error("Invalid JSON-RPC version")\<close>;
  reading \<open>.jsonrpc\<close> of \<open>null\<close> or \<open>undefined\<close> throws too. \<open>None\<close>: nothing is thrown.
\<close>

definition version_check :: "jsval \<Rightarrow> js_error option" where
  "version_check request =
     (if nullish request then Some null_read
      else if js_get request ''jsonrpc'' \<noteq> JStr ''2.0''
        then Some (Error ''Invalid JSON-RPC version'')
      else None)"

text \<open>
  The handler of \<open>POST /message\<close> on \<open>req.body\<close>, the body as the JSON middleware of the
  web framework hands it over. \<open>initialize\<close> and \<open>tools/list\<close> return values built from
  the static table \<open>MCP_CAPABILITIES\<close>, taken here as the parameters \<open>init_result\<close> and
  \<open>tools_result\<close>.
\<close>

definition post_message ::
  "'u upstream \<Rightarrow> env \<Rightarrow> jsval \<Rightarrow> jsval \<Rightarrow> jsval \<Rightarrow> 'u \<Rightarrow> jsval \<times> exchange list \<times> 'u" where
  "post_message up ev init_result tools_result body u =
     (case version_check body of
        Some e \<Rightarrow> (parse_error_response (error_message e), [], u)
      | None \<Rightarrow>
          if js_get body ''method'' = JStr ''initialize'' then
            (result_response (js_get body ''id'') init_result, [], u)
          else if js_get body ''method'' = JStr ''tools/list'' then
            (result_response (js_get body ''id'') tools_result, [], u)
          else
            (case handleWooCommerceRequest up ev (js_get body ''method'')
                    (js_get body ''params'') u of
               (Inr res, tr, u') \<Rightarrow> (result_response (js_get body ''id'') res, tr, u')
             | (Inl e, tr, u') \<Rightarrow>
                 (error_response (js_get body ''id'') (error_message e), tr, u')))"

text \<open>
  The whole of \<open>POST /message\<close> for a request with a JSON content type. The application
  registers \<open>express.json()\<close> before the route and no error-handling middleware. The
  middleware parses the raw body (\<open>json_parse\<close>, \<open>Inl\<close> the message of the syntax error);
  on a syntax error it passes the error on, the route handler is not run, and the
  framework answers with its own error page under the status 400. Otherwise the handler
  runs on the parsed body and its response is sent as JSON.
\<close>

datatype http_reply = SentJson jsval | ErrorPage nat

definition http_post_message ::
  "(string \<Rightarrow> string + jsval) \<Rightarrow> 'u upstream \<Rightarrow> env \<Rightarrow> jsval \<Rightarrow> jsval \<Rightarrow> string \<Rightarrow> 'u
     \<Rightarrow> http_reply \<times> exchange list \<times> 'u" where
  "http_post_message json_parse up ev init_result tools_result raw u =
     (case json_parse raw of
        Inl msg \<Rightarrow> (ErrorPage 400, [], u)
      | Inr body \<Rightarrow>
          (case post_message up ev init_result tools_result body u of
             (resp, tr, u') \<Rightarrow> (SentJson resp, tr, u')))"

section \<open>The dispatcher of \<open>src/sse-server.ts\<close>\<close>

text \<open>
  The second entry file has a dispatcher of its own, of ten methods, with one client for
  the store that carries the consumer key and secret as HTTP Basic credentials. (A second
  client for the content API is built and never used.) After \<open>create_product\<close>,
  \<open>update_product\<close>, \<open>create_order\<close> and \<open>update_order\<close> it also broadcasts the result
  to the event streams, which does not change what it returns and is not part of this model.
\<close>

definition sse_client :: "jsval \<Rightarrow> jsval \<Rightarrow> jsval \<Rightarrow> axios_client" where
  "sse_client siteUrl consumerKey consumerSecret =
     \<lparr>client_baseURL = js_to_string siteUrl @ ''/wp-json/wc/v3'',
      client_params = [],
      client_auth = Some (consumerKey, consumerSecret),
      client_headers = [(''Content-Type'', ''application/json'')]\<rparr>"

text \<open>
  \<open>if (params.perPage) p.append("per_page", params.perPage);
   if (params.page) p.append("page", params.page);\<close>
\<close>

definition sse_paging :: "jsval \<Rightarrow> (string \<times> string) list" where
  "sse_paging ps =
     (if truthy (js_get ps ''perPage'') then [(''per_page'', interp ps ''perPage'')] else [])
     @ (if truthy (js_get ps ''page'') then [(''page'', interp ps ''page'')] else [])"

text \<open>
  \<open>if (params.filters) Object.entries(params.filters).forEach(([key, value]) => {
     if (value !== undefined && value !== null) p.append(key, String(value)); })\<close>
\<close>

definition sse_filters :: "jsval \<Rightarrow> (string \<times> string) list" where
  "sse_filters ps =
     (if truthy (js_get ps ''filters'') then
        map (\<lambda>(k, v). (k, js_to_string v))
          (filter (\<lambda>(k, v). \<not> nullish v) (own_props (js_get ps ''filters'')))
      else [])"

definition sse_switch :: "axios_client \<Rightarrow> jsval \<Rightarrow> jsval \<Rightarrow> script" where
  "sse_switch cl m ps =
    (if m = JStr ''get_products'' then
       await_get cl (''/products?'' @ search_params_to_string (sse_paging ps @ sse_filters ps))
         None Return
     else if m = JStr ''get_product'' then
       require (js_get ps ''productId'') ''Product ID is required''
         (await_get cl (''/products/'' @ interp ps ''productId'') None Return)
     else if m = JStr ''create_product'' then
       require (js_get ps ''productData'') ''Product data is required''
         (await_post cl ''/products'' (js_get ps ''productData'') Return)
     else if m = JStr ''update_product'' then
       require (js_get ps ''productId'') ''Product ID is required''
         (require (js_get ps ''productData'') ''Product data is required''
           (await_put cl (''/products/'' @ interp ps ''productId'') (js_get ps ''productData'')
              Return))
     else if m = JStr ''get_orders'' then
       await_get cl (''/orders?'' @ search_params_to_string (sse_paging ps @ sse_filters ps))
         None Return
     else if m = JStr ''get_order'' then
       require (js_get ps ''orderId'') ''Order ID is required''
         (await_get cl (''/orders/'' @ interp ps ''orderId'') None Return)
     else if m = JStr ''create_order'' then
       require (js_get ps ''orderData'') ''Order data is required''
         (await_post cl ''/orders'' (js_get ps ''orderData'') Return)
     else if m = JStr ''update_order'' then
       require (js_get ps ''orderId'') ''Order ID is required''
         (require (js_get ps ''orderData'') ''Order data is required''
           (await_put cl (''/orders/'' @ interp ps ''orderId'') (js_get ps ''orderData'')
              Return))
     else if m = JStr ''get_customers'' then
       await_get cl (''/customers?'' @ search_params_to_string (sse_paging ps)) None Return
     else if m = JStr ''get_system_status'' then
       await_get cl ''/system_status'' None Return
     else Throw (Error (''Unknown method: '' @ js_to_string m)))"

definition sse_handleWooCommerceRequest_try :: "env \<Rightarrow> jsval \<Rightarrow> jsval \<Rightarrow> script" where
  "sse_handleWooCommerceRequest_try ev m ps =
     (case resolve ev ps of
        Inl e \<Rightarrow> Throw e
      | Inr cr \<Rightarrow>
          if \<not> truthy (cred_siteUrl cr) then
            Throw (Error
              ''WordPress site URL not provided in environment variables or request parameters'')
          else
            sse_switch
              (sse_client (cred_siteUrl cr) (cred_consumerKey cr) (cred_consumerSecret cr))
              m ps)"

definition sse_handleWooCommerceRequest ::
  "'u upstream \<Rightarrow> env \<Rightarrow> jsval \<Rightarrow> jsval \<Rightarrow> 'u \<Rightarrow> (js_error + jsval) \<times> exchange list \<times> 'u" where
  "sse_handleWooCommerceRequest up ev m ps u =
     (case run up (sse_handleWooCommerceRequest_try ev m ps) u of
        (Inl e, tr, u') \<Rightarrow> (Inl (catch_block e), tr, u')
      | (Inr v, tr, u') \<Rightarrow> (Inr v, tr, u'))"

text \<open>
  The line handler of the stdio server: \<open>JSON.parse(line)\<close>, here the parameter
  \<open>json_parse\<close> (\<open>Inl\<close> the message of the syntax error it throws), then the version
  check, then the dispatcher. The value is the response it prints.
\<close>

definition on_line ::
  "(string \<Rightarrow> string + jsval) \<Rightarrow> 'u upstream \<Rightarrow> env \<Rightarrow> string \<Rightarrow> 'u
     \<Rightarrow> jsval \<times> exchange list \<times> 'u" where
  "on_line json_parse up ev line u =
     (case json_parse line of
        Inl msg \<Rightarrow> (parse_error_response msg, [], u)
      | Inr request \<Rightarrow>
          (case version_check request of
             Some e \<Rightarrow> (parse_error_response (error_message e), [], u)
           | None \<Rightarrow>
               (case sse_handleWooCommerceRequest up ev (js_get request ''method'')
                       (js_get request ''params'') u of
                  (Inr res, tr, u') \<Rightarrow> (result_response (js_get request ''id'') res, tr, u')
                | (Inl e, tr, u') \<Rightarrow>
                    (error_response (js_get request ''id'') (error_message e), tr, u'))))"

section \<open>Properties of scripts, and example stores\<close>

text \<open>\<open>all_calls P s\<close>: every call that the script \<open>s\<close> can ever issue satisfies \<open>P\<close>.\<close>

primrec all_calls :: "(upstream_call \<Rightarrow> bool) \<Rightarrow> script \<Rightarrow> bool" where
  "all_calls P (Throw e) = True"
| "all_calls P (Return v) = True"
| "all_calls P (Call c k) = (P c \<and> (\<forall>d. all_calls P (k d)))"

text \<open>The exchanges of a dispatch, and whether an exchange succeeded.\<close>

definition exchanges :: "'r \<times> exchange list \<times> 'u \<Rightarrow> exchange list" where
  "exchanges res = fst (snd res)"

fun succeeded :: "exchange \<Rightarrow> bool" where
  "succeeded (c, Inr d) = True"
| "succeeded (c, Inl f) = False"

text \<open>
  Two stores to run the dispatchers on. \<open>entity_store\<close> holds one entity: a \<open>PUT\<close>
  replaces it by the body and answers with the new entity, any other call answers with
  the entity. \<open>failing_store f\<close> fails every call with \<open>f\<close>.
\<close>

definition entity_store :: "jsval upstream" where
  "entity_store c u =
     (case call_verb c of PUT \<Rightarrow> (Inr (call_data c), call_data c) | other \<Rightarrow> (Inr u, u))"

definition failing_store :: "axios_failure \<Rightarrow> unit upstream" where
  "failing_store f c u = (Inl f, u)"

definition shop_env :: env where
  "shop_env =
     \<lparr>DEFAULT_SITE_URL = ''https://shop.example'', DEFAULT_USERNAME = ''admin'',
      DEFAULT_PASSWORD = ''secret'', DEFAULT_CONSUMER_KEY = ''ck_1'',
      DEFAULT_CONSUMER_SECRET = ''cs_1''\<rparr>"

text \<open>What \<open>shop_env\<close> resolves to for a request that carries no credential field.\<close>

definition shop_credentials :: credentials where
  "shop_credentials =
     \<lparr>cred_siteUrl = JStr ''https://shop.example'', cred_username = JStr ''admin'',
      cred_password = JStr ''secret'', cred_consumerKey = JStr ''ck_1'',
      cred_consumerSecret = JStr ''cs_1''\<rparr>"

definition no_env :: env where
  "no_env =
     \<lparr>DEFAULT_SITE_URL = [], DEFAULT_USERNAME = [], DEFAULT_PASSWORD = [],
      DEFAULT_CONSUMER_KEY = [], DEFAULT_CONSUMER_SECRET = []\<rparr>"

text \<open>
  The three deletions that build \<open>force: params.force || false\<close>; every other \<open>DELETE\<close>
  of the dispatcher builds \<open>force: params.force || true\<close>.
\<close>

definition soft_deletes :: "string list" where
  "soft_deletes = [''delete_product'', ''delete_order'', ''delete_customer'']"

definition delete_query :: "jsval \<Rightarrow> jsval \<Rightarrow> (string \<times> jsval) list" where
  "delete_query m ps =
     (if m \<in> set (map JStr soft_deletes) then force_or_false ps else force_or_true ps)"

text \<open>
  The operations of \<open>src/index.ts\<close> whose query is
  \<open>{per_page: params.perPage || 10, page: params.page || 1, ...params.filters}\<close>, and the
  four reports whose query has \<open>period\<close>, \<open>date_min\<close> and \<open>date_max\<close> in front of these.
\<close>

definition paged_lists :: "string list" where
  "paged_lists =
     [''get_products'', ''get_orders'', ''get_customers'', ''get_categories_report'',
      ''get_customers_report'', ''get_stock_report'', ''get_tax_rates'', ''get_coupons'',
      ''get_order_notes'', ''get_order_refunds'', ''get_product_variations'',
      ''get_product_attributes'', ''get_attribute_terms'', ''get_product_categories'',
      ''get_product_tags'', ''get_product_reviews'']"

definition period_reports :: "string list" where
  "period_reports =
     [''get_products_report'', ''get_orders_report'', ''get_coupons_report'',
      ''get_taxes_report'']"

text \<open>
  The query of the \<open>GET\<close>s of a method of \<open>src/index.ts\<close>, \<open>None\<close> for a \<open>GET\<close> without
  \<open>params\<close>: the two kinds above, \<open>get_posts\<close> with the two pagination fields only,
  \<open>get_sales_report\<close> with the period and the filters, \<open>get_shipping_zones\<close> with the
  filters only, and no query for any other method.
\<close>

definition get_query :: "jsval \<Rightarrow> jsval \<Rightarrow> (string \<times> jsval) list option" where
  "get_query m ps =
     (if m \<in> set (map JStr paged_lists) then Some (page_query ps)
      else if m \<in> set (map JStr period_reports) then Some (report_query ps)
      else if m = JStr ''get_posts'' then
        Some [(''per_page'', js_or (js_get ps ''perPage'') (JNum 10)),
              (''page'', js_or (js_get ps ''page'') (JNum 1))]
      else if m = JStr ''get_sales_report'' then
        Some (obj_spread
                [(''period'', js_or (js_get ps ''period'') (JStr ''month'')),
                 (''date_min'', js_or (js_get ps ''dateMin'') (JStr [])),
                 (''date_max'', js_or (js_get ps ''dateMax'') (JStr []))]
                (js_get ps ''filters''))
      else if m = JStr ''get_shipping_zones'' then Some (obj_spread [] (js_get ps ''filters''))
      else None)"

text \<open>
  \<open>call_ok cl m ps\<close> is what holds of every call that the \<open>switch\<close> issues for the method
  \<open>m\<close> on the client \<open>cl\<close>: it is on that client, a \<open>DELETE\<close> carries the \<open>force\<close> of its
  method, a \<open>GET\<close> carries the query of its method, and a method that has a query issues
  nothing but \<open>GET\<close>s.
\<close>

definition call_ok :: "axios_client \<Rightarrow> jsval \<Rightarrow> jsval \<Rightarrow> upstream_call \<Rightarrow> bool" where
  "call_ok cl m ps c =
     (call_client c = cl
      \<and> (call_verb c = DELETE \<longrightarrow> call_params c = Some (delete_query m ps))
      \<and> (call_verb c = GET \<longrightarrow> call_params c = get_query m ps)
      \<and> (get_query m ps \<noteq> None \<longrightarrow> call_verb c = GET))"

text \<open>A document that is not JSON, and a parser on it: \<open>JSON.parse\<close> throws a syntax error.\<close>

definition malformed_body :: string where
  "malformed_body = ''{oops''"

definition reject_json :: "string \<Rightarrow> string + jsval" where
  "reject_json raw = Inl ''Unexpected token o in JSON at position 1''"

text \<open>A product with one meta entry, and requests on it.\<close>

definition example_product :: jsval where
  "example_product =
     JObj [(''id'', JNum 5),
           (''meta_data'', JArr [JObj [(''key'', JStr ''x''), (''value'', JNum 1)]])]"

definition example_create :: jsval where
  "example_create =
     JObj [(''productId'', JNum 5), (''metaKey'', JStr ''k''), (''metaValue'', JStr ''v'')]"

definition example_delete :: jsval where
  "example_delete = JObj [(''productId'', JNum 5), (''metaKey'', JStr ''x'')]"

text \<open>
  The deletions of the dispatcher of \<open>src/index.ts\<close>, each with the parameters its
  \<open>case\<close> requires before it calls the store; and the verbs of the calls of a dispatch.
\<close>

definition delete_requirements :: "(string \<times> string list) list" where
  "delete_requirements =
     [(''delete_product'', [''productId'']),
      (''delete_order'', [''orderId'']),
      (''delete_customer'', [''customerId'']),
      (''delete_shipping_zone'', [''zoneId'']),
      (''delete_shipping_zone_method'', [''zoneId'', ''instanceId'']),
      (''delete_tax_class'', [''slug'']),
      (''delete_tax_rate'', [''rateId'']),
      (''delete_coupon'', [''couponId'']),
      (''delete_order_note'', [''orderId'', ''noteId'']),
      (''delete_order_refund'', [''orderId'', ''refundId'']),
      (''delete_product_variation'', [''productId'', ''variationId'']),
      (''delete_product_attribute'', [''attributeId'']),
      (''delete_attribute_term'', [''attributeId'', ''termId'']),
      (''delete_product_category'', [''categoryId'']),
      (''delete_product_tag'', [''tagId'']),
      (''delete_product_review'', [''reviewId'']),
      (''delete_post_meta'', [''postId'', ''metaId''])]"

definition verbs :: "'r \<times> exchange list \<times> 'u \<Rightarrow> verb list" where
  "verbs res = map (\<lambda>x. call_verb (fst x)) (exchanges res)"
section \<open>Lemmas on scripts and on the \<open>switch\<close>\<close>

lemmas section_defs = switch_posts_def switch_products_def switch_orders_def
  switch_customers_def switch_reports_def switch_shipping_def switch_taxes_def
  switch_coupons_def switch_order_notes_def switch_order_refunds_def switch_variations_def
  switch_attributes_def switch_attribute_terms_def switch_categories_def switch_tags_def
  switch_reviews_def switch_store_def switch_post_meta_def switch_product_meta_def
  switch_order_meta_def switch_customer_meta_def

lemmas sec_defs = require_def require_defined_def await_get_def await_post_def await_put_def
  await_delete_def call_ok_def delete_query_def soft_deletes_def get_query_def paged_lists_def
  period_reports_def

text \<open>Every exchange of a run is a call of the script.\<close>

lemma run_all_calls:
  "all_calls P s \<Longrightarrow> (c, r) \<in> set (exchanges (run up s u)) \<Longrightarrow> P c"
proof (induction s arbitrary: u)
  case (Throw e)
  then show ?case by (simp add: exchanges_def)
next
  case (Return v)
  then show ?case by (simp add: exchanges_def)
next
  case (Call c0 k)
  show ?case
  proof (cases "up c0 u")
    case (Pair o1 u1)
    show ?thesis
    proof (cases o1)
      case (Inl f)
      with Pair Call.prems show ?thesis by (simp add: exchanges_def)
    next
      case (Inr d)
      obtain r2 tr2 u2 where run2: "run up (k d) u1 = (r2, tr2, u2)"
        by (cases "run up (k d) u1") auto
      from Call.prems(2) Pair Inr run2 have "(c, r) = (c0, Inr d) \<or> (c, r) \<in> set tr2"
        by (simp add: exchanges_def)
      then show ?thesis
      proof
        assume "(c, r) = (c0, Inr d)"
        with Call.prems(1) show ?thesis by simp
      next
        assume "(c, r) \<in> set tr2"
        then have "(c, r) \<in> set (exchanges (run up (k d) u1))"
          by (simp add: exchanges_def run2)
        moreover have "all_calls P (k d)" using Call.prems(1) by simp
        ultimately show ?thesis using Call.IH[of "k d" u1] by blast
      qed
    qed
  qed
qed

text \<open>
  A run goes on only after a successful call: every exchange but the last succeeded, and
  when the last one failed, the run ends with that failure.
\<close>

lemma run_stops_at_failure:
  "run up s u = (r, tr, u') \<Longrightarrow>
     (\<forall>i. Suc i < length tr \<longrightarrow> succeeded (tr ! i)) \<and>
     (\<forall>c f. tr \<noteq> [] \<and> last tr = (c, Inl f) \<longrightarrow> r = Inl (AxiosError f))"
proof (induction s arbitrary: u r tr u')
  case (Throw e)
  then show ?case by auto
next
  case (Return v)
  then show ?case by auto
next
  case (Call c0 k)
  show ?case
  proof (cases "up c0 u")
    case (Pair o1 u1)
    show ?thesis
    proof (cases o1)
      case (Inl f)
      with Pair Call.prems show ?thesis by auto
    next
      case (Inr d)
      obtain r2 tr2 u2 where run2: "run up (k d) u1 = (r2, tr2, u2)"
        by (cases "run up (k d) u1") auto
      from Call.prems Pair Inr run2 have eqs: "r = r2" "tr = (c0, Inr d) # tr2" "u' = u2"
        by auto
      have ih: "(\<forall>i. Suc i < length tr2 \<longrightarrow> succeeded (tr2 ! i)) \<and>
         (\<forall>c f. tr2 \<noteq> [] \<and> last tr2 = (c, Inl f) \<longrightarrow> r2 = Inl (AxiosError f))"
        using Call.IH[of "k d" u1 r2 tr2 u2] run2 by blast
      have a: "\<forall>i. Suc i < length tr \<longrightarrow> succeeded (tr ! i)"
      proof (intro allI impI)
        fix i assume "Suc i < length tr"
        then show "succeeded (tr ! i)" using ih eqs by (cases i) auto
      qed
      have b: "\<forall>c f. tr \<noteq> [] \<and> last tr = (c, Inl f) \<longrightarrow> r = Inl (AxiosError f)"
        using ih eqs by (cases tr2) auto
      from a b show ?thesis by blast
    qed
  qed
qed

lemma return_meta_data_calls: "all_calls P (return_meta_data d)"
  by (simp add: return_meta_data_def)

lemma meta_read_calls:
  assumes "P \<lparr>call_client = cl, call_verb = GET, call_url = url, call_params = None,
              call_data = JUndef\<rparr>"
  shows "all_calls P (meta_read cl url ps)"
proof -
  have "all_calls P
          (case md of
             JArr xs \<Rightarrow>
               (case meta_filter keep xs of Inl e \<Rightarrow> Throw e | Inr ys \<Rightarrow> Return (JArr ys))
           | other \<Rightarrow> Throw not_a_function)" for md keep
    by (cases md) (simp_all split: sum.split)
  then show ?thesis
    using assms by (simp add: meta_read_def await_get_def Let_def)
qed

lemma meta_write_calls:
  assumes "P \<lparr>call_client = cl, call_verb = GET, call_url = url, call_params = None,
              call_data = JUndef\<rparr>"
    and "\<And>d. P \<lparr>call_client = cl, call_verb = PUT, call_url = url, call_params = None,
              call_data = d\<rparr>"
  shows "all_calls P (meta_write cl url ps)"
  using assms
  by (simp add: meta_write_def await_get_def await_put_def return_meta_data_calls
      split: sum.split)

lemma meta_delete_calls:
  assumes "P \<lparr>call_client = cl, call_verb = GET, call_url = url, call_params = None,
              call_data = JUndef\<rparr>"
    and "\<And>d. P \<lparr>call_client = cl, call_verb = PUT, call_url = url, call_params = None,
              call_data = d\<rparr>"
  shows "all_calls P (meta_delete cl url ps)"
  using assms
  by (simp add: meta_delete_def await_get_def await_put_def return_meta_data_calls
      split: sum.split)

lemmas meta_calls = meta_read_calls meta_write_calls meta_delete_calls call_ok_def
  delete_query_def soft_deletes_def get_query_def paged_lists_def period_reports_def

lemma posts_ok: "switch_posts cl m ps = Some s \<Longrightarrow> all_calls (call_ok cl m ps) s"
  by (auto simp: switch_posts_def sec_defs split: if_splits)

lemma products_ok: "switch_products cl m ps = Some s \<Longrightarrow> all_calls (call_ok cl m ps) s"
  by (auto simp: switch_products_def sec_defs split: if_splits)

lemma orders_ok: "switch_orders cl m ps = Some s \<Longrightarrow> all_calls (call_ok cl m ps) s"
  by (auto simp: switch_orders_def sec_defs split: if_splits)

lemma customers_ok: "switch_customers cl m ps = Some s \<Longrightarrow> all_calls (call_ok cl m ps) s"
  by (auto simp: switch_customers_def sec_defs split: if_splits)

lemma reports_ok: "switch_reports cl m ps = Some s \<Longrightarrow> all_calls (call_ok cl m ps) s"
  by (auto simp: switch_reports_def sec_defs split: if_splits)

lemma shipping_ok: "switch_shipping cl m ps = Some s \<Longrightarrow> all_calls (call_ok cl m ps) s"
  by (auto simp: switch_shipping_def sec_defs split: if_splits)

lemma taxes_ok: "switch_taxes cl m ps = Some s \<Longrightarrow> all_calls (call_ok cl m ps) s"
  by (auto simp: switch_taxes_def sec_defs split: if_splits)

lemma coupons_ok: "switch_coupons cl m ps = Some s \<Longrightarrow> all_calls (call_ok cl m ps) s"
  by (auto simp: switch_coupons_def sec_defs split: if_splits)

lemma order_notes_ok: "switch_order_notes cl m ps = Some s \<Longrightarrow> all_calls (call_ok cl m ps) s"
  by (auto simp: switch_order_notes_def sec_defs split: if_splits)

lemma order_refunds_ok: "switch_order_refunds cl m ps = Some s \<Longrightarrow> all_calls (call_ok cl m ps) s"
  by (auto simp: switch_order_refunds_def sec_defs split: if_splits)

lemma variations_ok: "switch_variations cl m ps = Some s \<Longrightarrow> all_calls (call_ok cl m ps) s"
  by (auto simp: switch_variations_def sec_defs split: if_splits)

lemma attributes_ok: "switch_attributes cl m ps = Some s \<Longrightarrow> all_calls (call_ok cl m ps) s"
  by (auto simp: switch_attributes_def sec_defs split: if_splits)

lemma attribute_terms_ok: "switch_attribute_terms cl m ps = Some s \<Longrightarrow> all_calls (call_ok cl m ps) s"
  by (auto simp: switch_attribute_terms_def sec_defs split: if_splits)

lemma categories_ok: "switch_categories cl m ps = Some s \<Longrightarrow> all_calls (call_ok cl m ps) s"
  by (auto simp: switch_categories_def sec_defs split: if_splits)

lemma tags_ok: "switch_tags cl m ps = Some s \<Longrightarrow> all_calls (call_ok cl m ps) s"
  by (auto simp: switch_tags_def sec_defs split: if_splits)

lemma reviews_ok: "switch_reviews cl m ps = Some s \<Longrightarrow> all_calls (call_ok cl m ps) s"
  by (auto simp: switch_reviews_def sec_defs split: if_splits)

lemma store_ok: "switch_store cl m ps = Some s \<Longrightarrow> all_calls (call_ok cl m ps) s"
  by (auto simp: switch_store_def sec_defs split: if_splits)

lemma post_meta_ok: "switch_post_meta cl m ps = Some s \<Longrightarrow> all_calls (call_ok cl m ps) s"
  by (auto simp: switch_post_meta_def sec_defs split: if_splits)

lemma product_meta_ok: "switch_product_meta cl m ps = Some s \<Longrightarrow> all_calls (call_ok cl m ps) s"
  by (auto simp: switch_product_meta_def require_def require_defined_def meta_calls split: if_splits)

lemma order_meta_ok: "switch_order_meta cl m ps = Some s \<Longrightarrow> all_calls (call_ok cl m ps) s"
  by (auto simp: switch_order_meta_def require_def require_defined_def meta_calls split: if_splits)

lemma customer_meta_ok: "switch_customer_meta cl m ps = Some s \<Longrightarrow> all_calls (call_ok cl m ps) s"
  by (auto simp: switch_customer_meta_def require_def require_defined_def meta_calls split: if_splits)

lemma first_case_all_calls:
  "(\<And>sec s. sec \<in> set secs \<Longrightarrow> sec cl m ps = Some s \<Longrightarrow> all_calls P s)
     \<Longrightarrow> all_calls P (first_case secs cl m ps)"
  by (induction secs) (auto split: option.split)

lemma switch_method_ok: "all_calls (call_ok cl m ps) (switch_method cl m ps)"
  unfolding switch_method_def
proof (rule first_case_all_calls)
  fix sec s
  assume "sec \<in> set switch_sections" and "sec cl m ps = Some s"
  then show "all_calls (call_ok cl m ps) s"
    unfolding switch_sections_def
    using posts_ok products_ok orders_ok customers_ok reports_ok shipping_ok taxes_ok
      coupons_ok order_notes_ok order_refunds_ok variations_ok attributes_ok
      attribute_terms_ok categories_ok tags_ok reviews_ok store_ok post_meta_ok
      product_meta_ok order_meta_ok customer_meta_ok
    by auto
qed

lemma meta_findIndex_none:
  "\<forall>x \<in> set xs. \<not> nullish x \<and> \<not> strict_eq (js_get x ''key'') key
     \<Longrightarrow> meta_findIndex key xs = Inr None"
  by (induction xs) simp_all

lemma meta_filter_total:
  "\<forall>x \<in> set xs. \<not> nullish x
     \<Longrightarrow> meta_filter keep xs = Inr (filter (\<lambda>x. keep (js_get x ''key'')) xs)"
  by (induction xs) simp_all

lemma switch_create_product_meta:
  "switch_method cl (JStr ''create_product_meta'') ps =
     require (js_get ps ''productId'') ''Product ID is required''
       (require (js_get ps ''metaKey'') ''Meta key is required''
         (require_defined (js_get ps ''metaValue'') ''Meta value is required''
           (meta_write cl (''/products/'' @ js_to_string (js_get ps ''productId'')) ps)))"
  by (simp add: switch_method_def switch_sections_def section_defs)

lemma switch_delete_product_meta:
  "switch_method cl (JStr ''delete_product_meta'') ps =
     require (js_get ps ''productId'') ''Product ID is required''
       (require (js_get ps ''metaKey'') ''Meta key is required''
         (meta_delete cl (''/products/'' @ js_to_string (js_get ps ''productId'')) ps))"
  by (simp add: switch_method_def switch_sections_def section_defs)

lemma try_woo:
  assumes "m \<in> set (map JStr wooMethods)" "resolve ev ps = Inr cr"
    "truthy (cred_siteUrl cr)" "truthy (cred_consumerKey cr)"
    "truthy (cred_consumerSecret cr)"
  shows "handleWooCommerceRequest_try ev m ps =
     switch_method (woo_client (cred_siteUrl cr) (cred_consumerKey cr)
                      (cred_consumerSecret cr)) m ps"
proof -
  have "m \<notin> set (map JStr wpMethods)"
    using assms(1) by (auto simp: wooMethods_def wpMethods_def)
  then show ?thesis
    using assms by (simp add: handleWooCommerceRequest_try_def)
qed

text \<open>The dispatchers add no exchange of their own, and keep their own errors.\<close>

lemma catch_block_own [simp]:
  "catch_block (Error msg) = Error msg" "catch_block (TypeError msg) = TypeError msg"
  by (simp_all add: catch_block_def)

lemma handle_exchanges:
  "exchanges (handleWooCommerceRequest up ev m ps u) =
     exchanges (run up (handleWooCommerceRequest_try ev m ps) u)"
  by (simp add: handleWooCommerceRequest_def exchanges_def split: prod.split sum.split)

lemma sse_handle_exchanges:
  "exchanges (sse_handleWooCommerceRequest up ev m ps u) =
     exchanges (run up (sse_handleWooCommerceRequest_try ev m ps) u)"
  by (simp add: sse_handleWooCommerceRequest_def exchanges_def split: prod.split sum.split)

lemma exchanges_single: "exchanges (run up (Call c Return) u) = [(c, fst (up c u))]"
  by (simp add: exchanges_def split: prod.split sum.split)

text \<open>Two cases of the \<open>switch\<close>, and what holds of every call of a dispatch.\<close>

lemma switch_get_products:
  "switch_method cl (JStr ''get_products'') ps =
     await_get cl ''/products'' (Some (page_query ps)) Return"
  by (simp add: switch_method_def switch_sections_def section_defs)

lemma switch_get_posts:
  "switch_method cl (JStr ''get_posts'') ps =
     await_get cl ''/posts''
       (Some [(''per_page'', js_or (js_get ps ''perPage'') (JNum 10)),
              (''page'', js_or (js_get ps ''page'') (JNum 1))])
       Return"
  by (simp add: switch_method_def switch_sections_def section_defs)





lemma try_calls:
  assumes "resolve ev ps = Inr cr"
  shows "all_calls
     (call_ok
        (if m \<in> set (map JStr wpMethods)
         then wp_client (cred_siteUrl cr) (cred_username cr) (cred_password cr)
         else woo_client (cred_siteUrl cr) (cred_consumerKey cr) (cred_consumerSecret cr))
        m ps)
     (handleWooCommerceRequest_try ev m ps)"
  using assms by (simp add: handleWooCommerceRequest_try_def switch_method_ok)

lemma sse_try_calls:
  assumes "resolve ev ps = Inr cr"
  shows "all_calls
     (\<lambda>c. call_client c =
            sse_client (cred_siteUrl cr) (cred_consumerKey cr) (cred_consumerSecret cr))
     (sse_handleWooCommerceRequest_try ev m ps)"
  using assms
  by (simp add: sse_handleWooCommerceRequest_try_def sse_switch_def require_def
      await_get_def await_post_def await_put_def)

text \<open>A dispatch that calls the store has resolved the credentials.\<close>

lemma exchange_resolved:
  assumes "(c, r) \<in> set (exchanges (handleWooCommerceRequest up ev m ps u))"
  obtains cr where "resolve ev ps = Inr cr"
proof (cases "resolve ev ps")
  case (Inl e)
  with assms have False
    unfolding handle_exchanges by (simp add: handleWooCommerceRequest_try_def exchanges_def)
  then show ?thesis ..
next
  case (Inr cr)
  then show ?thesis by (rule that)
qed

lemma sse_exchange_resolved:
  assumes "(c, r) \<in> set (exchanges (sse_handleWooCommerceRequest up ev m ps u))"
  obtains cr where "resolve ev ps = Inr cr"
proof (cases "resolve ev ps")
  case (Inl e)
  with assms have False
    unfolding sse_handle_exchanges
    by (simp add: sse_handleWooCommerceRequest_try_def exchanges_def)
  then show ?thesis ..
next
  case (Inr cr)
  then show ?thesis by (rule that)
qed
section \<open>Meta data of a product: create and delete\<close>

text \<open>
  Claim C1. Let the request carry a truthy \<open>productId\<close> and \<open>metaKey\<close> and a
  \<open>metaValue\<close>, let the credentials resolve (\<open>params\<close> is an object, so they do) with a truthy
  site URL, consumer key and consumer secret, let the store
  answer the \<open>GET\<close> of the product with an entity whose \<open>meta_data\<close> (or \<open>[]\<close> when it
  has none) is the sequence \<open>existing\<close> of entries, none of them with the key
  \<open>metaKey\<close>, and let it answer the \<open>PUT\<close> with an entity. Then dispatching
  \<open>create_product_meta\<close> performs exactly that \<open>GET\<close> and then a \<open>PUT\<close> of the same
  path whose body is \<open>{meta_data: existing @ [{key: metaKey, value: metaValue}]}\<close>, and
  returns the \<open>meta_data\<close> of the answer to the \<open>PUT\<close>, not the entity.
\<close>

theorem create_product_meta_appends:
  fixes up :: "'u upstream"
  assumes res: "resolve ev ps = Inr cr"
    and site: "truthy (cred_siteUrl cr)"
    and ck: "truthy (cred_consumerKey cr)"
    and cs: "truthy (cred_consumerSecret cr)"
    and pid: "truthy (js_get ps ''productId'')"
    and key: "truthy (js_get ps ''metaKey'')"
    and val: "js_get ps ''metaValue'' \<noteq> JUndef"
    and cl: "cl = woo_client (cred_siteUrl cr) (cred_consumerKey cr)
                    (cred_consumerSecret cr)"
    and get: "get = \<lparr>call_client = cl, call_verb = GET,
                      call_url = ''/products/'' @ js_to_string (js_get ps ''productId''),
                      call_params = None, call_data = JUndef\<rparr>"
    and put: "put = \<lparr>call_client = cl, call_verb = PUT,
                      call_url = ''/products/'' @ js_to_string (js_get ps ''productId''),
                      call_params = None,
                      call_data = JObj [(''meta_data'',
                        JArr (existing @ [JObj [(''key'', js_get ps ''metaKey''),
                                                (''value'', js_get ps ''metaValue'')]]))]\<rparr>"
    and got: "up get u = (Inr product, u1)"
    and product: "\<not> nullish product"
    and existing: "js_or (js_get product ''meta_data'') (JArr []) = JArr existing"
    and fresh: "\<forall>x \<in> set existing.
                  \<not> nullish x \<and> \<not> strict_eq (js_get x ''key'') (js_get ps ''metaKey'')"
    and stored: "up put u1 = (Inr updated, u2)"
    and updated: "\<not> nullish updated"
  shows "handleWooCommerceRequest up ev (JStr ''create_product_meta'') ps u =
           (Inr (js_get updated ''meta_data''),
            [(get, Inr product), (put, Inr updated)], u2)"
proof -
  have woo: "JStr ''create_product_meta'' \<in> set (map JStr wooMethods)"
    by (simp add: wooMethods_def)
  have body: "handleWooCommerceRequest_try ev (JStr ''create_product_meta'') ps =
                meta_write cl (''/products/'' @ js_to_string (js_get ps ''productId'')) ps"
    using try_woo[OF woo res site ck cs] pid key val
    by (simp add: switch_create_product_meta cl require_def require_defined_def)
  have ups: "upsert_meta product (js_get ps ''metaKey'') (js_get ps ''metaValue'') =
               Inr (existing @ [JObj [(''key'', js_get ps ''metaKey''),
                                      (''value'', js_get ps ''metaValue'')]])"
    using product existing meta_findIndex_none[OF fresh] by (simp add: upsert_meta_def)
  have "run up (meta_write cl (''/products/'' @ js_to_string (js_get ps ''productId'')) ps) u =
          (Inr (js_get updated ''meta_data''), [(get, Inr product), (put, Inr updated)], u2)"
    using got stored updated ups unfolding get put
    by (simp add: meta_write_def await_get_def await_put_def return_meta_data_def)
  then show ?thesis
    by (simp add: handleWooCommerceRequest_def body)
qed

theorem create_product_meta_appends_witness:
  "fst (handleWooCommerceRequest entity_store shop_env (JStr ''create_product_meta'')
          example_create example_product) =
     Inr (JArr [JObj [(''key'', JStr ''x''), (''value'', JNum 1)],
                JObj [(''key'', JStr ''k''), (''value'', JStr ''v'')]])
   \<and> map (\<lambda>x. (call_verb (fst x), call_url (fst x), call_data (fst x)))
         (exchanges (handleWooCommerceRequest entity_store shop_env
            (JStr ''create_product_meta'') example_create example_product)) =
       [(GET, ''/products/5'', JUndef),
        (PUT, ''/products/5'',
         JObj [(''meta_data'', JArr [JObj [(''key'', JStr ''x''), (''value'', JNum 1)],
                                      JObj [(''key'', JStr ''k''), (''value'', JStr ''v'')]])])]"
proof -
  let ?new = "JObj [(''meta_data'', JArr [JObj [(''key'', JStr ''x''), (''value'', JNum 1)],
                                      JObj [(''key'', JStr ''k''), (''value'', JStr ''v'')]])]"
  let ?cl = "woo_client (cred_siteUrl shop_credentials)
               (cred_consumerKey shop_credentials)
               (cred_consumerSecret shop_credentials)"
  let ?get = "\<lparr>call_client = ?cl, call_verb = GET,
                call_url = ''/products/'' @ js_to_string (js_get example_create ''productId''),
                call_params = None, call_data = JUndef\<rparr>"
  let ?put = "\<lparr>call_client = ?cl, call_verb = PUT,
                call_url = ''/products/'' @ js_to_string (js_get example_create ''productId''),
                call_params = None,
                call_data = JObj [(''meta_data'',
                  JArr ([JObj [(''key'', JStr ''x''), (''value'', JNum 1)]]
                        @ [JObj [(''key'', js_get example_create ''metaKey''),
                                 (''value'', js_get example_create ''metaValue'')]]))]\<rparr>"
  have run: "handleWooCommerceRequest entity_store shop_env (JStr ''create_product_meta'')
          example_create example_product =
        (Inr (js_get ?new ''meta_data''), [(?get, Inr example_product), (?put, Inr ?new)], ?new)"
    by (rule create_product_meta_appends[where cr = shop_credentials and cl = ?cl and existing =
          "[JObj [(''key'', JStr ''x''), (''value'', JNum 1)]]" and product = example_product
          and ?u1.0 = example_product])
       (simp_all add: resolve_def shop_env_def shop_credentials_def example_create_def example_product_def
          js_or_def entity_store_def)
  show ?thesis
    unfolding run exchanges_def
    by (simp add: example_create_def digits_nat.simps)
qed

text \<open>
  Claim C2. Under the same conditions on the request and the store, with a sequence
  \<open>existing\<close> of entries, dispatching \<open>delete_product_meta\<close> performs the \<open>GET\<close> of the
  product and then a \<open>PUT\<close> of the same path whose body is \<open>{meta_data: kept}\<close>, where
  \<open>kept\<close> is \<open>existing\<close> without the entries whose key is \<open>metaKey\<close>: the others stay, in
  their order. It returns the \<open>meta_data\<close> of the answer to the \<open>PUT\<close>.
\<close>

theorem delete_product_meta_filters:
  fixes up :: "'u upstream"
  assumes res: "resolve ev ps = Inr cr"
    and site: "truthy (cred_siteUrl cr)"
    and ck: "truthy (cred_consumerKey cr)"
    and cs: "truthy (cred_consumerSecret cr)"
    and pid: "truthy (js_get ps ''productId'')"
    and key: "truthy (js_get ps ''metaKey'')"
    and cl: "cl = woo_client (cred_siteUrl cr) (cred_consumerKey cr)
                    (cred_consumerSecret cr)"
    and get: "get = \<lparr>call_client = cl, call_verb = GET,
                      call_url = ''/products/'' @ js_to_string (js_get ps ''productId''),
                      call_params = None, call_data = JUndef\<rparr>"
    and put: "put = \<lparr>call_client = cl, call_verb = PUT,
                      call_url = ''/products/'' @ js_to_string (js_get ps ''productId''),
                      call_params = None,
                      call_data = JObj [(''meta_data'',
                        JArr (filter (\<lambda>x. \<not> strict_eq (js_get x ''key'') (js_get ps ''metaKey''))
                                existing))]\<rparr>"
    and got: "up get u = (Inr product, u1)"
    and product: "\<not> nullish product"
    and existing: "js_or (js_get product ''meta_data'') (JArr []) = JArr existing"
    and entries: "\<forall>x \<in> set existing. \<not> nullish x"
    and stored: "up put u1 = (Inr updated, u2)"
    and updated: "\<not> nullish updated"
  shows "handleWooCommerceRequest up ev (JStr ''delete_product_meta'') ps u =
           (Inr (js_get updated ''meta_data''),
            [(get, Inr product), (put, Inr updated)], u2)"
proof -
  have woo: "JStr ''delete_product_meta'' \<in> set (map JStr wooMethods)"
    by (simp add: wooMethods_def)
  have body: "handleWooCommerceRequest_try ev (JStr ''delete_product_meta'') ps =
                meta_delete cl (''/products/'' @ js_to_string (js_get ps ''productId'')) ps"
    using try_woo[OF woo res site ck cs] pid key
    by (simp add: switch_delete_product_meta cl require_def)
  have rem: "remove_meta product (js_get ps ''metaKey'') =
               Inr (filter (\<lambda>x. \<not> strict_eq (js_get x ''key'') (js_get ps ''metaKey'')) existing)"
    using product existing meta_filter_total[OF entries] by (simp add: remove_meta_def)
  have "run up (meta_delete cl (''/products/'' @ js_to_string (js_get ps ''productId'')) ps) u =
          (Inr (js_get updated ''meta_data''), [(get, Inr product), (put, Inr updated)], u2)"
    using got stored updated rem unfolding get put
    by (simp add: meta_delete_def await_get_def await_put_def return_meta_data_def)
  then show ?thesis
    by (simp add: handleWooCommerceRequest_def body)
qed

theorem delete_product_meta_filters_witness:
  "fst (handleWooCommerceRequest entity_store shop_env (JStr ''delete_product_meta'')
          example_delete
          (JObj [(''meta_data'', JArr [JObj [(''key'', JStr ''a''), (''value'', JNum 1)],
                                       JObj [(''key'', JStr ''x''), (''value'', JNum 2)],
                                       JObj [(''key'', JStr ''b''), (''value'', JNum 3)],
                                       JObj [(''key'', JStr ''x''), (''value'', JNum 4)]])])) =
     Inr (JArr [JObj [(''key'', JStr ''a''), (''value'', JNum 1)],
                JObj [(''key'', JStr ''b''), (''value'', JNum 3)]])
   \<and> map (\<lambda>x. (call_verb (fst x), call_url (fst x), call_data (fst x)))
         (exchanges (handleWooCommerceRequest entity_store shop_env
            (JStr ''delete_product_meta'') example_delete
            (JObj [(''meta_data'', JArr [JObj [(''key'', JStr ''a''), (''value'', JNum 1)],
                                         JObj [(''key'', JStr ''x''), (''value'', JNum 2)],
                                         JObj [(''key'', JStr ''b''), (''value'', JNum 3)],
                                         JObj [(''key'', JStr ''x''), (''value'', JNum 4)]])]))) =
       [(GET, ''/products/5'', JUndef),
        (PUT, ''/products/5'',
         JObj [(''meta_data'', JArr [JObj [(''key'', JStr ''a''), (''value'', JNum 1)],
                                      JObj [(''key'', JStr ''b''), (''value'', JNum 3)]])])]"
proof -
  let ?old = "[JObj [(''key'', JStr ''a''), (''value'', JNum 1)],
               JObj [(''key'', JStr ''x''), (''value'', JNum 2)],
               JObj [(''key'', JStr ''b''), (''value'', JNum 3)],
               JObj [(''key'', JStr ''x''), (''value'', JNum 4)]]"
  let ?product = "JObj [(''meta_data'', JArr ?old)]"
  let ?kept = "filter (\<lambda>x. \<not> strict_eq (js_get x ''key'') (js_get example_delete ''metaKey''))
                 ?old"
  let ?new = "JObj [(''meta_data'', JArr ?kept)]"
  let ?cl = "woo_client (cred_siteUrl shop_credentials)
               (cred_consumerKey shop_credentials)
               (cred_consumerSecret shop_credentials)"
  let ?get = "\<lparr>call_client = ?cl, call_verb = GET,
                call_url = ''/products/'' @ js_to_string (js_get example_delete ''productId''),
                call_params = None, call_data = JUndef\<rparr>"
  let ?put = "\<lparr>call_client = ?cl, call_verb = PUT,
                call_url = ''/products/'' @ js_to_string (js_get example_delete ''productId''),
                call_params = None, call_data = ?new\<rparr>"
  have run: "handleWooCommerceRequest entity_store shop_env (JStr ''delete_product_meta'')
          example_delete ?product =
        (Inr (js_get ?new ''meta_data''), [(?get, Inr ?product), (?put, Inr ?new)], ?new)"
    by (rule delete_product_meta_filters[where cr = shop_credentials and cl = ?cl
          and existing = ?old
          and product = ?product and ?u1.0 = ?product])
       (simp_all add: resolve_def shop_env_def shop_credentials_def example_delete_def
          js_or_def entity_store_def)
  show ?thesis
    unfolding run exchanges_def
    by (simp add: example_delete_def digits_nat.simps)
qed
section \<open>Unknown methods\<close>

text \<open>
  Claim C3, as stated, fails: the look-up of the method is not the first step. The
  dispatcher resolves the site URL before it looks at the method, so
  \<open>dispatch("nonexistent_method", {})\<close> in a process with no default site URL fails with
  the error of the missing site URL, not with \<open>Unknown method\<close>.
\<close>

theorem unknown_method_without_site_url:
  "handleWooCommerceRequest entity_store no_env (JStr ''nonexistent_method'') (JObj []) JNull =
     (Inl (Error
        ''WordPress site URL not provided in environment variables or request parameters''),
      [], JNull)"
  by (simp add: handleWooCommerceRequest_def handleWooCommerceRequest_try_def resolve_def
      no_env_def js_or_def catch_block_def)

text \<open>
  Claim C3, amended. For every method that is in neither list of the dispatcher and every
  params object (anything but \<open>null\<close> and \<open>undefined\<close>), the dispatch fails without a
  call to the store: with \<open>Unknown method: <method>\<close> when the site URL resolves to a
  truthy value, with the error of the missing site URL otherwise; the resolution of the
  credentials itself succeeds on such params. The dispatcher of
  \<open>src/sse-server.ts\<close> does the same.
\<close>

theorem unknown_method_after_site_url:
  fixes up :: "'u upstream"
  assumes unknown: "m \<notin> set (map JStr (wpMethods @ wooMethods))"
    and ps: "\<not> nullish ps"
  shows "\<exists>cr. resolve ev ps = Inr cr
       \<and> handleWooCommerceRequest up ev m ps u =
           (Inl (Error
              (if truthy (cred_siteUrl cr) then ''Unknown method: '' @ js_to_string m
               else ''WordPress site URL not provided in environment variables or request parameters'')),
            [], u)
       \<and> sse_handleWooCommerceRequest up ev m ps u =
           (Inl (Error
              (if truthy (cred_siteUrl cr) then ''Unknown method: '' @ js_to_string m
               else ''WordPress site URL not provided in environment variables or request parameters'')),
            [], u)"
proof -
  from ps obtain cr where res: "resolve ev ps = Inr cr"
    by (simp add: resolve_def)
  have wp: "m \<notin> set (map JStr wpMethods)" and woo: "m \<notin> set (map JStr wooMethods)"
    using unknown by auto
  have index: "handleWooCommerceRequest_try ev m ps =
      Throw (Error
              (if truthy (cred_siteUrl cr) then ''Unknown method: '' @ js_to_string m
               else ''WordPress site URL not provided in environment variables or request parameters''))"
    using wp woo res by (simp add: handleWooCommerceRequest_try_def)
  have labels: "m \<noteq> JStr ''get_products''" "m \<noteq> JStr ''get_product''"
    "m \<noteq> JStr ''create_product''" "m \<noteq> JStr ''update_product''"
    "m \<noteq> JStr ''get_orders''" "m \<noteq> JStr ''get_order''"
    "m \<noteq> JStr ''create_order''" "m \<noteq> JStr ''update_order''"
    "m \<noteq> JStr ''get_customers''" "m \<noteq> JStr ''get_system_status''"
    using woo by (auto simp: wooMethods_def)
  have sse: "sse_handleWooCommerceRequest_try ev m ps =
      Throw (Error
              (if truthy (cred_siteUrl cr) then ''Unknown method: '' @ js_to_string m
               else ''WordPress site URL not provided in environment variables or request parameters''))"
    using labels res by (simp add: sse_handleWooCommerceRequest_try_def sse_switch_def)
  show ?thesis
    using res
    by (simp add: handleWooCommerceRequest_def sse_handleWooCommerceRequest_def index sse
        catch_block_def)
qed

theorem unknown_method_after_site_url_witness:
  "handleWooCommerceRequest entity_store shop_env (JStr ''nonexistent_method'') (JObj []) JNull =
     (Inl (Error ''Unknown method: nonexistent_method''), [], JNull)
   \<and> sse_handleWooCommerceRequest entity_store shop_env (JStr ''nonexistent_method'') (JObj [])
       JNull =
     (Inl (Error ''Unknown method: nonexistent_method''), [], JNull)"
proof -
  have unknown: "JStr ''nonexistent_method'' \<notin> set (map JStr (wpMethods @ wooMethods))"
    by (simp add: wpMethods_def wooMethods_def)
  have ps: "\<not> nullish (JObj [])" by simp
  have res: "resolve shop_env (JObj []) = Inr shop_credentials"
    by (simp add: resolve_def shop_env_def shop_credentials_def js_or_def)
  show ?thesis
    using unknown_method_after_site_url[OF unknown ps, of shop_env entity_store JNull]
    by (simp add: res shop_credentials_def)
qed
section \<open>Store credentials\<close>

text \<open>
  The dispatcher of \<open>src/index.ts\<close> does what claim C4 says, once the site URL resolves:
  a method of the store without a key or without a secret fails before any call, and
  \<open>get_products\<close> with both issues its call.
\<close>

lemma index_missing_store_credentials:
  fixes up :: "'u upstream"
  assumes "m \<in> set (map JStr wooMethods)" and "resolve ev ps = Inr cr"
    and "truthy (cred_siteUrl cr)"
    and "\<not> truthy (cred_consumerKey cr) \<or> \<not> truthy (cred_consumerSecret cr)"
  shows "handleWooCommerceRequest up ev m ps u =
           (Inl (Error
              ''WooCommerce API credentials not provided in environment variables or request parameters''),
            [], u)"
proof -
  have "m \<notin> set (map JStr wpMethods)"
    using assms(1) by (auto simp: wooMethods_def wpMethods_def)
  then show ?thesis
    using assms
    by (auto simp: handleWooCommerceRequest_def handleWooCommerceRequest_try_def)
qed

lemma index_get_products_builds_call:
  fixes up :: "'u upstream"
  assumes "resolve ev ps = Inr cr" and "truthy (cred_siteUrl cr)"
    and "truthy (cred_consumerKey cr)" and "truthy (cred_consumerSecret cr)"
  shows "exchanges (handleWooCommerceRequest up ev (JStr ''get_products'') ps u) =
           [(\<lparr>call_client = woo_client (cred_siteUrl cr) (cred_consumerKey cr)
                                (cred_consumerSecret cr),
              call_verb = GET, call_url = ''/products'', call_params = Some (page_query ps),
              call_data = JUndef\<rparr>,
             fst (up \<lparr>call_client = woo_client (cred_siteUrl cr)
                                      (cred_consumerKey cr) (cred_consumerSecret cr),
                     call_verb = GET, call_url = ''/products'',
                     call_params = Some (page_query ps), call_data = JUndef\<rparr> u))]"
proof -
  have woo: "JStr ''get_products'' \<in> set (map JStr wooMethods)"
    by (simp add: wooMethods_def)
  show ?thesis
    unfolding handle_exchanges try_woo[OF woo assms] switch_get_products await_get_def
    by (rule exchanges_single)
qed

text \<open>
  Claim C4: a method of the store dispatched with no consumer key and secret, neither in
  the request nor in the process-wide defaults, must fail with the error of the missing
  store credentials. The dispatcher of \<open>src/sse-server.ts\<close> has no such check: at the
  request \<open>get_products\<close> with only a site URL it builds the client with the empty key and
  secret as Basic credentials, calls the store and returns its answer. The dispatcher of
  \<open>src/index.ts\<close> fails at the same request, before any call.
\<close>

theorem sse_get_products_without_credentials:
  "sse_handleWooCommerceRequest entity_store no_env (JStr ''get_products'')
     (JObj [(''siteUrl'', JStr ''https://shop.example'')]) JNull =
   (Inr JNull,
    [(\<lparr>call_client =
         \<lparr>client_baseURL = ''https://shop.example/wp-json/wc/v3'', client_params = [],
          client_auth = Some (JStr [], JStr []),
          client_headers = [(''Content-Type'', ''application/json'')]\<rparr>,
       call_verb = GET, call_url = ''/products?'', call_params = None, call_data = JUndef\<rparr>,
      Inr JNull)],
    JNull)
   \<and> handleWooCommerceRequest entity_store no_env (JStr ''get_products'')
     (JObj [(''siteUrl'', JStr ''https://shop.example'')]) JNull =
   (Inl (Error
      ''WooCommerce API credentials not provided in environment variables or request parameters''),
    [], JNull)"
  by (simp add: sse_handleWooCommerceRequest_def sse_handleWooCommerceRequest_try_def
      sse_switch_def sse_client_def sse_paging_def sse_filters_def resolve_def no_env_def
      js_or_def await_get_def entity_store_def handleWooCommerceRequest_def
      handleWooCommerceRequest_try_def wpMethods_def wooMethods_def)
section \<open>Resolution of the credentials\<close>

text \<open>
  Both dispatchers read the five fields off \<open>params\<close> before anything else: with
  \<open>params\<close> \<open>undefined\<close> or \<open>null\<close> the first read throws, and the dispatch fails with that
  type error without a call to the store.
\<close>

lemma no_params_no_resolution:
  fixes up :: "'u upstream"
  assumes "nullish ps"
  shows "resolve ev ps = Inl null_read"
    and "handleWooCommerceRequest up ev m ps u = (Inl null_read, [], u)"
    and "sse_handleWooCommerceRequest up ev m ps u = (Inl null_read, [], u)"
  using assms
  by (simp_all add: resolve_def handleWooCommerceRequest_def handleWooCommerceRequest_try_def
      sse_handleWooCommerceRequest_def sse_handleWooCommerceRequest_try_def null_read_def)

text \<open>
  Claim C5. Let \<open>params\<close> be a value that has properties (anything but \<open>undefined\<close> and
  \<open>null\<close>). Then the resolution succeeds, and for each of the five credential fields
  (\<open>siteUrl\<close>, \<open>username\<close>, \<open>password\<close>, \<open>consumerKey\<close>, \<open>consumerSecret\<close>) the resolved
  value is \<open>params.field\<close> when that is truthy, and the process-wide default otherwise.
  For a field holding a string this is: the string of the request when it is not empty,
  the default when it is empty; and the default when the field is absent. The resolved
  values are the ones the dispatchers use: every call of \<open>src/index.ts\<close> is on the client
  built from the resolved site URL and the resolved credentials of the family of the
  method, every call of \<open>src/sse-server.ts\<close> on the client built from the resolved site
  URL, consumer key and consumer secret. A request with \<open>siteUrl\<close> \<open>"https://a.com"\<close>
  against the default \<open>"https://b.com"\<close> resolves to \<open>"https://a.com"\<close> and calls the store
  under \<open>https://a.com\<close> (the witness below).
\<close>

theorem credential_resolution:
  fixes up :: "'u upstream"
  assumes ps: "\<not> nullish ps"
  shows
   "\<exists>cr. resolve ev ps = Inr cr
      \<and> (\<forall>(field, resolved, default) \<in>
            set [(''siteUrl'', cred_siteUrl, DEFAULT_SITE_URL),
                 (''username'', cred_username, DEFAULT_USERNAME),
                 (''password'', cred_password, DEFAULT_PASSWORD),
                 (''consumerKey'', cred_consumerKey, DEFAULT_CONSUMER_KEY),
                 (''consumerSecret'', cred_consumerSecret, DEFAULT_CONSUMER_SECRET)].
           resolved cr =
             (if truthy (js_get ps field) then js_get ps field else JStr (default ev))
           \<and> (\<forall>s. js_get ps field = JStr s \<longrightarrow>
                  resolved cr = (if s \<noteq> [] then JStr s else JStr (default ev)))
           \<and> (js_get ps field = JUndef \<longrightarrow> resolved cr = JStr (default ev)))
      \<and> (\<forall>(c, r) \<in> set (exchanges (handleWooCommerceRequest up ev m ps u)).
           call_client c =
             (if m \<in> set (map JStr wpMethods)
              then wp_client (cred_siteUrl cr) (cred_username cr) (cred_password cr)
              else woo_client (cred_siteUrl cr) (cred_consumerKey cr)
                     (cred_consumerSecret cr)))
      \<and> (\<forall>(c, r) \<in> set (exchanges (sse_handleWooCommerceRequest up ev m ps u)).
           call_client c =
             sse_client (cred_siteUrl cr) (cred_consumerKey cr) (cred_consumerSecret cr))"
proof -
  from ps obtain cr where res: "resolve ev ps = Inr cr"
    by (simp add: resolve_def)
  have fields:
    "\<forall>(field, resolved, default) \<in>
            set [(''siteUrl'', cred_siteUrl, DEFAULT_SITE_URL),
                 (''username'', cred_username, DEFAULT_USERNAME),
                 (''password'', cred_password, DEFAULT_PASSWORD),
                 (''consumerKey'', cred_consumerKey, DEFAULT_CONSUMER_KEY),
                 (''consumerSecret'', cred_consumerSecret, DEFAULT_CONSUMER_SECRET)].
           resolved cr =
             (if truthy (js_get ps field) then js_get ps field else JStr (default ev))
           \<and> (\<forall>s. js_get ps field = JStr s \<longrightarrow>
                  resolved cr = (if s \<noteq> [] then JStr s else JStr (default ev)))
           \<and> (js_get ps field = JUndef \<longrightarrow> resolved cr = JStr (default ev))"
  proof -
    have cr: "cr =
        \<lparr>cred_siteUrl = js_or (js_get ps ''siteUrl'') (JStr (DEFAULT_SITE_URL ev)),
         cred_username = js_or (js_get ps ''username'') (JStr (DEFAULT_USERNAME ev)),
         cred_password = js_or (js_get ps ''password'') (JStr (DEFAULT_PASSWORD ev)),
         cred_consumerKey = js_or (js_get ps ''consumerKey'') (JStr (DEFAULT_CONSUMER_KEY ev)),
         cred_consumerSecret =
           js_or (js_get ps ''consumerSecret'') (JStr (DEFAULT_CONSUMER_SECRET ev))\<rparr>"
      using res ps by (simp add: resolve_def)
    show ?thesis
      unfolding cr by (simp add: js_or_def)
  qed
  have index: "call_client c =
             (if m \<in> set (map JStr wpMethods)
              then wp_client (cred_siteUrl cr) (cred_username cr) (cred_password cr)
              else woo_client (cred_siteUrl cr) (cred_consumerKey cr)
                     (cred_consumerSecret cr))"
    if "(c, r) \<in> set (exchanges (handleWooCommerceRequest up ev m ps u))" for c r
  proof -
    from that have "(c, r) \<in> set (exchanges (run up (handleWooCommerceRequest_try ev m ps) u))"
      by (simp add: handle_exchanges)
    then have "call_ok
        (if m \<in> set (map JStr wpMethods)
         then wp_client (cred_siteUrl cr) (cred_username cr) (cred_password cr)
         else woo_client (cred_siteUrl cr) (cred_consumerKey cr) (cred_consumerSecret cr))
        m ps c"
      by (rule run_all_calls[OF try_calls[OF res]])
    then show ?thesis by (simp add: call_ok_def)
  qed
  have sse: "call_client c =
             sse_client (cred_siteUrl cr) (cred_consumerKey cr) (cred_consumerSecret cr)"
    if "(c, r) \<in> set (exchanges (sse_handleWooCommerceRequest up ev m ps u))" for c r
  proof -
    from that
    have "(c, r) \<in> set (exchanges (run up (sse_handleWooCommerceRequest_try ev m ps) u))"
      by (simp add: sse_handle_exchanges)
    then show ?thesis by (rule run_all_calls[OF sse_try_calls[OF res]])
  qed
  from res fields index sse show ?thesis by blast
qed

theorem credential_resolution_witness:
  "resolve (shop_env\<lparr>DEFAULT_SITE_URL := ''https://b.com''\<rparr>)
     (JObj [(''siteUrl'', JStr ''https://a.com'')]) =
     Inr \<lparr>cred_siteUrl = JStr ''https://a.com'', cred_username = JStr ''admin'',
          cred_password = JStr ''secret'', cred_consumerKey = JStr ''ck_1'',
          cred_consumerSecret = JStr ''cs_1''\<rparr>
   \<and> map (\<lambda>x. (client_baseURL (call_client (fst x)), client_params (call_client (fst x))))
       (exchanges (handleWooCommerceRequest entity_store
          (shop_env\<lparr>DEFAULT_SITE_URL := ''https://b.com''\<rparr>) (JStr ''get_products'')
          (JObj [(''siteUrl'', JStr ''https://a.com'')]) JNull)) =
     [(''https://a.com/wp-json/wc/v3'',
       [(''consumer_key'', JStr ''ck_1''), (''consumer_secret'', JStr ''cs_1'')])]"
proof -
  let ?ps = "JObj [(''siteUrl'', JStr ''https://a.com'')]"
  let ?ev = "shop_env\<lparr>DEFAULT_SITE_URL := ''https://b.com''\<rparr>"
  have ps: "\<not> nullish ?ps" by simp
  from credential_resolution[OF ps, of ?ev entity_store "JStr ''get_products''" JNull]
  obtain cr where res: "resolve ?ev ?ps = Inr cr"
    and fields: "\<forall>(field, resolved, default) \<in>
            set [(''siteUrl'', cred_siteUrl, DEFAULT_SITE_URL),
                 (''username'', cred_username, DEFAULT_USERNAME),
                 (''password'', cred_password, DEFAULT_PASSWORD),
                 (''consumerKey'', cred_consumerKey, DEFAULT_CONSUMER_KEY),
                 (''consumerSecret'', cred_consumerSecret, DEFAULT_CONSUMER_SECRET)].
           resolved cr =
             (if truthy (js_get ?ps field) then js_get ?ps field else JStr (default ?ev))
           \<and> (\<forall>s. js_get ?ps field = JStr s \<longrightarrow>
                  resolved cr = (if s \<noteq> [] then JStr s else JStr (default ?ev)))
           \<and> (js_get ?ps field = JUndef \<longrightarrow> resolved cr = JStr (default ?ev))"
    and calls: "\<forall>(c, r) \<in> set (exchanges (handleWooCommerceRequest entity_store ?ev
                    (JStr ''get_products'') ?ps JNull)).
           call_client c =
             (if JStr ''get_products'' \<in> set (map JStr wpMethods)
              then wp_client (cred_siteUrl cr) (cred_username cr) (cred_password cr)
              else woo_client (cred_siteUrl cr) (cred_consumerKey cr)
                     (cred_consumerSecret cr))"
    by blast
  have site: "cred_siteUrl cr = JStr ''https://a.com''"
    and user: "cred_username cr = JStr ''admin''"
    and pass: "cred_password cr = JStr ''secret''"
    and key: "cred_consumerKey cr = JStr ''ck_1''"
    and secret: "cred_consumerSecret cr = JStr ''cs_1''"
    using fields by (simp_all add: shop_env_def)
  have cr: "cr = \<lparr>cred_siteUrl = JStr ''https://a.com'', cred_username = JStr ''admin'',
          cred_password = JStr ''secret'', cred_consumerKey = JStr ''ck_1'',
          cred_consumerSecret = JStr ''cs_1''\<rparr>"
    using site user pass key secret by (cases cr) simp
  obtain c where ex: "exchanges (handleWooCommerceRequest entity_store ?ev
        (JStr ''get_products'') ?ps JNull) = [(c, Inr JNull)]"
    using index_get_products_builds_call[OF res, of entity_store JNull] site key secret
    by (simp add: entity_store_def)
  have "call_client c =
          woo_client (cred_siteUrl cr) (cred_consumerKey cr) (cred_consumerSecret cr)"
    using calls unfolding ex by (simp add: wpMethods_def)
  then show ?thesis
    unfolding ex using res cr by (simp add: woo_client_def)
qed
section \<open>Clients and authentication\<close>

text \<open>
  Claim C6, as stated, fails for the store client of \<open>src/sse-server.ts\<close>, which is
  configured with \<open>auth: {username: consumerKey, password: consumerSecret}\<close>: the key
  and the secret travel as HTTP Basic credentials and the client has no query parameters.
\<close>

theorem sse_store_client_basic_auth:
  "sse_handleWooCommerceRequest entity_store shop_env (JStr ''get_system_status'') (JObj [])
     JNull =
   (Inr JNull,
    [(\<lparr>call_client =
         \<lparr>client_baseURL = ''https://shop.example/wp-json/wc/v3'', client_params = [],
          client_auth = Some (JStr ''ck_1'', JStr ''cs_1''),
          client_headers = [(''Content-Type'', ''application/json'')]\<rparr>,
       call_verb = GET, call_url = ''/system_status'', call_params = None,
       call_data = JUndef\<rparr>,
      Inr JNull)],
    JNull)"
  by (simp add: sse_handleWooCommerceRequest_def sse_handleWooCommerceRequest_try_def
      sse_switch_def sse_client_def resolve_def shop_env_def js_or_def await_get_def
      entity_store_def)

text \<open>
  Claim C6, amended. Every call that the dispatcher of \<open>src/index.ts\<close> issues for a
  content method is on a client with base URL \<open>{siteUrl}/wp-json/wp/v2\<close> and the header
  \<open>Authorization: Basic base64(username:password)\<close>; every call it issues for a store
  method is on a client with base URL \<open>{siteUrl}/wp-json/wc/v3\<close>, the default query
  parameters \<open>consumer_key\<close> and \<open>consumer_secret\<close>, and no \<open>Authorization\<close> header or
  Basic credentials. Every call that the dispatcher of \<open>src/sse-server.ts\<close> issues is on a
  client with base URL \<open>{siteUrl}/wp-json/wc/v3\<close> that carries the consumer key and
  secret as Basic credentials and has no query parameters.
\<close>

theorem clients_by_family:
  fixes up :: "'u upstream"
  shows
   "(\<forall>(c, r) \<in> set (exchanges (handleWooCommerceRequest up ev m ps u)).
     \<exists>cr. resolve ev ps = Inr cr \<and>
       (m \<in> set (map JStr wpMethods) \<longrightarrow>
          call_client c =
            \<lparr>client_baseURL = js_to_string (cred_siteUrl cr) @ ''/wp-json/wp/v2'',
             client_params = [], client_auth = None,
             client_headers =
               [(''Authorization'',
                 ''Basic '' @ base64 (js_to_string (cred_username cr) @ '':''
                                       @ js_to_string (cred_password cr))),
                (''Content-Type'', ''application/json'')]\<rparr>)
     \<and> (m \<in> set (map JStr wooMethods) \<longrightarrow>
          call_client c =
            \<lparr>client_baseURL = js_to_string (cred_siteUrl cr) @ ''/wp-json/wc/v3'',
             client_params = [(''consumer_key'', cred_consumerKey cr),
                              (''consumer_secret'', cred_consumerSecret cr)],
             client_auth = None,
             client_headers = [(''Content-Type'', ''application/json'')]\<rparr>))
  \<and> (\<forall>(c, r) \<in> set (exchanges (sse_handleWooCommerceRequest up ev m ps u)).
     \<exists>cr. resolve ev ps = Inr cr \<and>
       call_client c =
         \<lparr>client_baseURL = js_to_string (cred_siteUrl cr) @ ''/wp-json/wc/v3'',
          client_params = [],
          client_auth = Some (cred_consumerKey cr, cred_consumerSecret cr),
          client_headers = [(''Content-Type'', ''application/json'')]\<rparr>)"
proof -
  have disjoint: "m \<in> set (map JStr wooMethods) \<Longrightarrow> m \<notin> set (map JStr wpMethods)"
    by (auto simp: wooMethods_def wpMethods_def)
  have index: "\<exists>cr. resolve ev ps = Inr cr \<and> call_ok
        (if m \<in> set (map JStr wpMethods)
         then wp_client (cred_siteUrl cr) (cred_username cr) (cred_password cr)
         else woo_client (cred_siteUrl cr) (cred_consumerKey cr)
                (cred_consumerSecret cr))
        m ps c"
    if "(c, r) \<in> set (exchanges (handleWooCommerceRequest up ev m ps u))" for c r
  proof -
    from that obtain cr where res: "resolve ev ps = Inr cr"
      by (rule exchange_resolved)
    from that have "(c, r) \<in> set (exchanges (run up (handleWooCommerceRequest_try ev m ps) u))"
      by (simp add: handle_exchanges)
    then have "call_ok
        (if m \<in> set (map JStr wpMethods)
         then wp_client (cred_siteUrl cr) (cred_username cr) (cred_password cr)
         else woo_client (cred_siteUrl cr) (cred_consumerKey cr)
                (cred_consumerSecret cr))
        m ps c"
      by (rule run_all_calls[OF try_calls[OF res]])
    with res show ?thesis by blast
  qed
  have sse: "\<exists>cr. resolve ev ps = Inr cr \<and> call_client c =
            sse_client (cred_siteUrl cr) (cred_consumerKey cr)
              (cred_consumerSecret cr)"
    if "(c, r) \<in> set (exchanges (sse_handleWooCommerceRequest up ev m ps u))" for c r
  proof -
    from that obtain cr where res: "resolve ev ps = Inr cr"
      by (rule sse_exchange_resolved)
    from that
    have "(c, r) \<in> set (exchanges (run up (sse_handleWooCommerceRequest_try ev m ps) u))"
      by (simp add: sse_handle_exchanges)
    then have "call_client c =
            sse_client (cred_siteUrl cr) (cred_consumerKey cr) (cred_consumerSecret cr)"
      by (rule run_all_calls[OF sse_try_calls[OF res]])
    with res show ?thesis by blast
  qed
  show ?thesis
  proof (intro conjI ballI)
    fix x assume x: "x \<in> set (exchanges (handleWooCommerceRequest up ev m ps u))"
    obtain c r where cr: "x = (c, r)" by (cases x)
    from index[of c r] x cr disjoint
    show "case x of (c, r) \<Rightarrow>
     \<exists>cr. resolve ev ps = Inr cr \<and>
       (m \<in> set (map JStr wpMethods) \<longrightarrow>
          call_client c =
            \<lparr>client_baseURL = js_to_string (cred_siteUrl cr) @ ''/wp-json/wp/v2'',
             client_params = [], client_auth = None,
             client_headers =
               [(''Authorization'',
                 ''Basic '' @ base64 (js_to_string (cred_username cr) @ '':''
                                       @ js_to_string (cred_password cr))),
                (''Content-Type'', ''application/json'')]\<rparr>)
     \<and> (m \<in> set (map JStr wooMethods) \<longrightarrow>
          call_client c =
            \<lparr>client_baseURL = js_to_string (cred_siteUrl cr) @ ''/wp-json/wc/v3'',
             client_params = [(''consumer_key'', cred_consumerKey cr),
                              (''consumer_secret'', cred_consumerSecret cr)],
             client_auth = None,
             client_headers = [(''Content-Type'', ''application/json'')]\<rparr>)"
      by (auto simp: call_ok_def wp_client_def woo_client_def)
  next
    fix x assume x: "x \<in> set (exchanges (sse_handleWooCommerceRequest up ev m ps u))"
    obtain c r where cr: "x = (c, r)" by (cases x)
    from sse[of c r] x cr
    show "case x of (c, r) \<Rightarrow>
     \<exists>cr. resolve ev ps = Inr cr \<and>
       call_client c =
         \<lparr>client_baseURL = js_to_string (cred_siteUrl cr) @ ''/wp-json/wc/v3'',
          client_params = [],
          client_auth = Some (cred_consumerKey cr, cred_consumerSecret cr),
          client_headers = [(''Content-Type'', ''application/json'')]\<rparr>"
      by (auto simp: sse_client_def)
  qed
qed

theorem clients_by_family_witness:
  "map (\<lambda>x. (client_baseURL (call_client (fst x)), client_headers (call_client (fst x))))
     (exchanges (handleWooCommerceRequest entity_store shop_env (JStr ''get_posts'') (JObj [])
        JNull)) =
     [(''https://shop.example/wp-json/wp/v2'',
       [(''Authorization'', ''Basic YWRtaW46c2VjcmV0''),
        (''Content-Type'', ''application/json'')])]
   \<and> map (\<lambda>x. (client_baseURL (call_client (fst x)), client_params (call_client (fst x)),
                client_headers (call_client (fst x))))
     (exchanges (handleWooCommerceRequest entity_store shop_env (JStr ''get_products'')
        (JObj []) JNull)) =
     [(''https://shop.example/wp-json/wc/v3'',
       [(''consumer_key'', JStr ''ck_1''), (''consumer_secret'', JStr ''cs_1'')],
       [(''Content-Type'', ''application/json'')])]
   \<and> map (\<lambda>x. (client_baseURL (call_client (fst x)), client_params (call_client (fst x)),
                client_auth (call_client (fst x))))
     (exchanges (sse_handleWooCommerceRequest entity_store shop_env (JStr ''get_products'')
        (JObj []) JNull)) =
     [(''https://shop.example/wp-json/wc/v3'', [], Some (JStr ''ck_1'', JStr ''cs_1''))]"
proof -
  let ?ps = "JObj []"
  let ?sse = "sse_client (cred_siteUrl shop_credentials) (cred_consumerKey shop_credentials)
                (cred_consumerSecret shop_credentials)"
  let ?c3 = "\<lparr>call_client = ?sse, call_verb = GET, call_url = ''/products?'',
               call_params = None, call_data = JUndef\<rparr>"
  let ?wp = "wp_client (cred_siteUrl shop_credentials) (cred_username shop_credentials)
               (cred_password shop_credentials)"
  let ?c1 = "\<lparr>call_client = ?wp, call_verb = GET, call_url = ''/posts'',
               call_params = Some [(''per_page'', js_or (js_get ?ps ''perPage'') (JNum 10)),
                                   (''page'', js_or (js_get ?ps ''page'') (JNum 1))],
               call_data = JUndef\<rparr>"
  let ?woo = "woo_client (cred_siteUrl shop_credentials) (cred_consumerKey shop_credentials)
                (cred_consumerSecret shop_credentials)"
  let ?c2 = "\<lparr>call_client = ?woo, call_verb = GET, call_url = ''/products'',
               call_params = Some (page_query ?ps), call_data = JUndef\<rparr>"
  have res: "resolve shop_env ?ps = Inr shop_credentials"
    by (simp add: resolve_def shop_env_def shop_credentials_def js_or_def)
  have creds: "truthy (cred_siteUrl shop_credentials)" "truthy (cred_username shop_credentials)"
    "truthy (cred_password shop_credentials)" "truthy (cred_consumerKey shop_credentials)"
    "truthy (cred_consumerSecret shop_credentials)"
    by (simp_all add: shop_credentials_def)
  have wp: "JStr ''get_posts'' \<in> set (map JStr wpMethods)" by (simp add: wpMethods_def)
  have woo: "JStr ''get_products'' \<in> set (map JStr wooMethods)" by (simp add: wooMethods_def)
  have ex1: "exchanges (handleWooCommerceRequest entity_store shop_env (JStr ''get_posts'') ?ps
                JNull) = [(?c1, Inr JNull)]"
    using res creds wp unfolding handle_exchanges
    by (simp add: handleWooCommerceRequest_try_def switch_get_posts
        await_get_def exchanges_def entity_store_def)
  have ex2: "exchanges (handleWooCommerceRequest entity_store shop_env (JStr ''get_products'')
                ?ps JNull) = [(?c2, Inr JNull)]"
    using creds index_get_products_builds_call[OF res, of entity_store JNull]
    by (simp add: entity_store_def)
  have ex3: "exchanges (sse_handleWooCommerceRequest entity_store shop_env
                (JStr ''get_products'') ?ps JNull) = [(?c3, Inr JNull)]"
    using res creds unfolding sse_handle_exchanges
    by (simp add: sse_handleWooCommerceRequest_try_def sse_switch_def sse_paging_def
        sse_filters_def await_get_def exchanges_def entity_store_def)
  have t3: "call_client ?c3 =
         \<lparr>client_baseURL = js_to_string (cred_siteUrl shop_credentials) @ ''/wp-json/wc/v3'',
          client_params = [],
          client_auth = Some (cred_consumerKey shop_credentials,
                              cred_consumerSecret shop_credentials),
          client_headers = [(''Content-Type'', ''application/json'')]\<rparr>"
    using clients_by_family[of entity_store shop_env "JStr ''get_products''" ?ps JNull]
    unfolding ex3 by (simp add: res)
  have t1: "call_client ?c1 =
            \<lparr>client_baseURL = js_to_string (cred_siteUrl shop_credentials) @ ''/wp-json/wp/v2'',
             client_params = [], client_auth = None,
             client_headers =
               [(''Authorization'',
                 ''Basic '' @ base64 (js_to_string (cred_username shop_credentials) @ '':''
                                       @ js_to_string (cred_password shop_credentials))),
                (''Content-Type'', ''application/json'')]\<rparr>"
    using clients_by_family[of entity_store shop_env "JStr ''get_posts''" ?ps JNull] wp
    unfolding ex1 by (simp add: res)
  have t2: "call_client ?c2 =
            \<lparr>client_baseURL = js_to_string (cred_siteUrl shop_credentials) @ ''/wp-json/wc/v3'',
             client_params = [(''consumer_key'', cred_consumerKey shop_credentials),
                              (''consumer_secret'', cred_consumerSecret shop_credentials)],
             client_auth = None,
             client_headers = [(''Content-Type'', ''application/json'')]\<rparr>"
    using clients_by_family[of entity_store shop_env "JStr ''get_products''" ?ps JNull] woo
    unfolding ex2 by (simp add: res)
  show ?thesis
    unfolding ex1 ex2 ex3 using t1 t2 t3
    by (simp add: shop_credentials_def base64_def b64_alphabet_def)
qed
section \<open>Queries of the list operations\<close>








section \<open>The JSON-RPC envelope\<close>

text \<open>
  What the two handlers do. In the line handler of the stdio server, a line that
  \<open>JSON.parse\<close> rejects, and a parsed request whose \<open>jsonrpc\<close> is not exactly \<open>"2.0"\<close> (a
  request that is \<open>null\<close> included), are answered with the parse error: code \<open>-32700\<close> and
  \<open>id: null\<close>, with no call to the store. The handler of \<open>POST /message\<close> answers a parsed
  body whose \<open>jsonrpc\<close> is not exactly \<open>"2.0"\<close> in the same way. In both, a request whose
  dispatch fails with an error \<open>e\<close> is answered with code \<open>-32000\<close>, the message of \<open>e\<close>, and
  the \<open>id\<close> of the request (no \<open>id\<close> when the request has none).
\<close>

lemma envelope_errors:
  fixes up :: "'u upstream"
  shows
   "(json_parse line = Inl msg \<longrightarrow>
       on_line json_parse up ev line u = (parse_error_response msg, [], u))
  \<and> (json_parse line = Inr request \<and> js_get request ''jsonrpc'' \<noteq> JStr ''2.0'' \<longrightarrow>
       on_line json_parse up ev line u =
         (parse_error_response
            (if nullish request then error_message null_read
             else ''Invalid JSON-RPC version''), [], u))
  \<and> (js_get body ''jsonrpc'' \<noteq> JStr ''2.0'' \<longrightarrow>
       post_message up ev init_result tools_result body u =
         (parse_error_response
            (if nullish body then error_message null_read
             else ''Invalid JSON-RPC version''), [], u))
  \<and> js_get (parse_error_response msg) ''id'' = JNull
  \<and> js_get (js_get (parse_error_response msg) ''error'') ''code'' = JNum (- 32700)
  \<and> (json_parse line = Inr request \<and> js_get request ''jsonrpc'' = JStr ''2.0''
       \<and> sse_handleWooCommerceRequest up ev (js_get request ''method'')
             (js_get request ''params'') u = (Inl e, tr, u') \<longrightarrow>
       on_line json_parse up ev line u =
         (error_response (js_get request ''id'') (error_message e), tr, u'))
  \<and> (js_get body ''jsonrpc'' = JStr ''2.0''
       \<and> js_get body ''method'' \<noteq> JStr ''initialize''
       \<and> js_get body ''method'' \<noteq> JStr ''tools/list''
       \<and> handleWooCommerceRequest up ev (js_get body ''method'') (js_get body ''params'') u =
             (Inl e, tr, u') \<longrightarrow>
       post_message up ev init_result tools_result body u =
         (error_response (js_get body ''id'') (error_message e), tr, u'))
  \<and> js_get (error_response rid msg) ''id'' = rid
  \<and> js_get (js_get (error_response rid msg) ''error'') ''code'' = JNum (- 32000)
  \<and> js_get (js_get (error_response rid msg) ''error'') ''message'' = JStr msg"
proof -
  have not_nullish: "js_get v ''jsonrpc'' = JStr ''2.0'' \<Longrightarrow> \<not> nullish v" for v
    by (cases v) simp_all
  show ?thesis
    by (auto simp: on_line_def post_message_def version_check_def parse_error_response_def
        error_response_def json_members_def null_read_def not_nullish)
qed

lemma envelope_errors_example:
  "on_line (\<lambda>l. Inl ''Unexpected token o in JSON'') entity_store shop_env ''{oops'' JNull =
     (JObj [(''jsonrpc'', JStr ''2.0''), (''id'', JNull),
            (''error'', JObj [(''code'', JNum (- 32700)), (''message'', JStr ''Parse error''),
                              (''data'', JStr ''Unexpected token o in JSON'')])],
      [], JNull)
   \<and> post_message entity_store shop_env JNull JNull
       (JObj [(''jsonrpc'', JStr ''1.0''), (''id'', JNum 7), (''method'', JStr ''get_products'')])
       JNull =
     (JObj [(''jsonrpc'', JStr ''2.0''), (''id'', JNull),
            (''error'', JObj [(''code'', JNum (- 32700)), (''message'', JStr ''Parse error''),
                              (''data'', JStr ''Invalid JSON-RPC version'')])],
      [], JNull)
   \<and> post_message entity_store shop_env JNull JNull
       (JObj [(''jsonrpc'', JStr ''2.0''), (''id'', JNum 7),
              (''method'', JStr ''nonexistent_method''), (''params'', JObj [])])
       JNull =
     (JObj [(''jsonrpc'', JStr ''2.0''), (''id'', JNum 7),
            (''error'', JObj [(''code'', JNum (- 32000)),
                              (''message'', JStr ''Unknown method: nonexistent_method'')])],
      [], JNull)"
proof -
  let ?b1 = "JObj [(''jsonrpc'', JStr ''1.0''), (''id'', JNum 7),
                   (''method'', JStr ''get_products'')]"
  let ?b2 = "JObj [(''jsonrpc'', JStr ''2.0''), (''id'', JNum 7),
                   (''method'', JStr ''nonexistent_method''), (''params'', JObj [])]"
  let ?parse = "\<lambda>l::string. (Inl ''Unexpected token o in JSON'' :: string + jsval)"
  have fails: "handleWooCommerceRequest entity_store shop_env (js_get ?b2 ''method'')
                 (js_get ?b2 ''params'') JNull =
               (Inl (Error ''Unknown method: nonexistent_method''), [], JNull)"
    by (simp add: handleWooCommerceRequest_def handleWooCommerceRequest_try_def resolve_def
        shop_env_def js_or_def wpMethods_def wooMethods_def)
  note t1 = envelope_errors[where json_parse = ?parse and line = "''{oops''"
      and msg = "''Unexpected token o in JSON''" and up = entity_store and ev = shop_env
      and u = JNull]
  note t2 = envelope_errors[where body = ?b1 and up = entity_store and ev = shop_env
      and u = JNull and init_result = JNull and tools_result = JNull]
  note t3 = envelope_errors[where body = ?b2 and up = entity_store and ev = shop_env
      and u = JNull and init_result = JNull and tools_result = JNull
      and e = "Error ''Unknown method: nonexistent_method''" and tr = "[]" and u' = JNull]
  have r1: "on_line ?parse entity_store shop_env ''{oops'' JNull =
              (parse_error_response ''Unexpected token o in JSON'', [], JNull)"
    using t1 by simp
  have r2: "post_message entity_store shop_env JNull JNull ?b1 JNull =
              (parse_error_response ''Invalid JSON-RPC version'', [], JNull)"
    using t2 by simp
  have r3: "post_message entity_store shop_env JNull JNull ?b2 JNull =
              (error_response (JNum 7) ''Unknown method: nonexistent_method'', [], JNull)"
    using t3 fails by simp
  show ?thesis
    unfolding r1 r2 r3
    by (simp add: parse_error_response_def error_response_def json_members_def)
qed

text \<open>
  Claim C8: a payload that fails JSON parsing must be answered with a JSON-RPC error of
  code \<open>-32700\<close> and \<open>id: null\<close>. Over HTTP it is not. The body of \<open>POST /message\<close> is parsed
  by the JSON middleware registered in front of the route; a body that the parser
  rejects never reaches the handler, whose \<open>catch\<close> with the code \<open>-32700\<close> and the
  message \<open>Parse error\<close> therefore sees no syntax error, and the client gets the error
  page of the framework under the status 400, not a JSON-RPC response. The line handler
  of the stdio server answers the same payload with the parse error.
\<close>

theorem http_parse_failure_not_enveloped:
  fixes up :: "'u upstream"
  assumes "json_parse raw = Inl msg"
  shows "http_post_message json_parse up ev init_result tools_result raw u =
           (ErrorPage 400, [], u)
       \<and> on_line json_parse up ev raw u = (parse_error_response msg, [], u)"
  using assms by (simp add: http_post_message_def on_line_def)

theorem http_parse_failure_not_enveloped_witness:
  "http_post_message reject_json entity_store shop_env JNull JNull malformed_body JNull =
     (ErrorPage 400, [], JNull)
   \<and> on_line reject_json entity_store shop_env malformed_body JNull =
     (JObj [(''jsonrpc'', JStr ''2.0''), (''id'', JNull),
            (''error'', JObj [(''code'', JNum (- 32700)), (''message'', JStr ''Parse error''),
                              (''data'', JStr ''Unexpected token o in JSON at position 1'')])],
      [], JNull)"
proof -
  have rejected: "reject_json malformed_body = Inl ''Unexpected token o in JSON at position 1''"
    by (simp add: reject_json_def)
  show ?thesis
    using http_parse_failure_not_enveloped[where json_parse = reject_json
        and raw = malformed_body and msg = "''Unexpected token o in JSON at position 1''"
        and up = entity_store and ev = shop_env and init_result = JNull
        and tools_result = JNull and u = JNull] rejected
    by (simp add: parse_error_response_def json_members_def)
qed
section \<open>Failures of the store\<close>

text \<open>
  Claim C9, as stated, fails: the message of the error is not the \<open>message\<close> field of
  the response body but that field after the prefix \<open>API error: \<close>. A store that answers
  \<open>get_product\<close> with status 404 and the body \<open>{message: "Invalid ID."}\<close> makes the
  dispatch fail with the message \<open>API error: Invalid ID.\<close>.
\<close>

theorem upstream_message_is_prefixed:
  "handleWooCommerceRequest
     (failing_store \<lparr>ax_message = ''Request failed with status code 404'',
                     ax_response = Some (JObj [(''code'', JStr ''invalid_id''),
                                               (''message'', JStr ''Invalid ID.'')])\<rparr>)
     shop_env (JStr ''get_product'') (JObj [(''productId'', JNum 7)]) () =
   (Inl (Error ''API error: Invalid ID.''),
    [(\<lparr>call_client =
         \<lparr>client_baseURL = ''https://shop.example/wp-json/wc/v3'',
          client_params = [(''consumer_key'', JStr ''ck_1''), (''consumer_secret'', JStr ''cs_1'')],
          client_auth = None,
          client_headers = [(''Content-Type'', ''application/json'')]\<rparr>,
       call_verb = GET, call_url = ''/products/7'', call_params = None, call_data = JUndef\<rparr>,
      Inl \<lparr>ax_message = ''Request failed with status code 404'',
            ax_response = Some (JObj [(''code'', JStr ''invalid_id''),
                                      (''message'', JStr ''Invalid ID.'')])\<rparr>)],
    ())"
  by (simp add: handleWooCommerceRequest_def handleWooCommerceRequest_try_def resolve_def
      shop_env_def js_or_def wpMethods_def wooMethods_def switch_method_def
      switch_sections_def section_defs require_def await_get_def woo_client_def
      failing_store_def catch_block_def opt_get_def digits_nat.simps)

lemma catch_block_axios:
  "catch_block (AxiosError f) =
     (case ax_response f of
        Some d \<Rightarrow>
          Error (''API error: ''
                 @ js_to_string (if truthy (opt_get d ''message'') then opt_get d ''message''
                                 else JStr (ax_message f)))
      | None \<Rightarrow> AxiosError f)"
  by (simp add: catch_block_def js_or_def split: option.split)

text \<open>
  Claim C9, amended. In both dispatchers, every exchange with the store but the last one
  succeeded (the dispatch ends at the first failed call: nothing is retried, nothing
  follows), and when the last call failed the dispatch fails: if the failure carries a
  response, with an \<open>Error\<close> whose message is \<open>API error: \<close> followed by the \<open>message\<close>
  field of the response body when that is truthy and by the transport message otherwise;
  if it carries no response, with the failure itself, whose message is the transport
  message.
\<close>

theorem upstream_failure_translation:
  fixes up :: "'u upstream"
  assumes "handleWooCommerceRequest up ev m ps u = (res, tr, u')
           \<or> sse_handleWooCommerceRequest up ev m ps u = (res, tr, u')"
  shows "(\<forall>i. Suc i < length tr \<longrightarrow> succeeded (tr ! i))
       \<and> (\<forall>c f. tr \<noteq> [] \<and> last tr = (c, Inl f) \<longrightarrow>
            res = Inl (case ax_response f of
                         Some d \<Rightarrow>
                           Error (''API error: ''
                                  @ js_to_string
                                      (if truthy (opt_get d ''message'') then opt_get d ''message''
                                       else JStr (ax_message f)))
                       | None \<Rightarrow> AxiosError f))"
proof -
  have general: "(\<forall>i. Suc i < length tr \<longrightarrow> succeeded (tr ! i))
       \<and> (\<forall>c f. tr \<noteq> [] \<and> last tr = (c, Inl f) \<longrightarrow> res = Inl (catch_block (AxiosError f)))"
    if "(case run up s u of (Inl e, tr, u') \<Rightarrow> (Inl (catch_block e), tr, u')
                           | (Inr v, tr, u') \<Rightarrow> (Inr v, tr, u')) = (res, tr, u')" for s
  proof -
    obtain r0 tr0 u0 where run: "run up s u = (r0, tr0, u0)"
      by (cases "run up s u") auto
    from that run have tr: "tr0 = tr" and res: "res = (case r0 of Inl e \<Rightarrow> Inl (catch_block e)
                                                    | Inr v \<Rightarrow> Inr v)"
      by (auto split: sum.splits)
    from run_stops_at_failure[OF run] tr res show ?thesis by auto
  qed
  from assms show ?thesis
  proof
    assume "handleWooCommerceRequest up ev m ps u = (res, tr, u')"
    then show ?thesis
      using general[of "handleWooCommerceRequest_try ev m ps"]
      by (simp add: handleWooCommerceRequest_def catch_block_axios)
  next
    assume "sse_handleWooCommerceRequest up ev m ps u = (res, tr, u')"
    then show ?thesis
      using general[of "sse_handleWooCommerceRequest_try ev m ps"]
      by (simp add: sse_handleWooCommerceRequest_def catch_block_axios)
  qed
qed

theorem upstream_failure_translation_witness:
  "fst (handleWooCommerceRequest
          (failing_store \<lparr>ax_message = ''Request failed with status code 502'',
                          ax_response = Some (JStr ''Bad Gateway'')\<rparr>)
          shop_env (JStr ''get_order'') (JObj [(''orderId'', JNum 3)]) ()) =
     Inl (Error ''API error: Request failed with status code 502'')
   \<and> fst (sse_handleWooCommerceRequest
          (failing_store \<lparr>ax_message = ''connect ECONNREFUSED'', ax_response = None\<rparr>)
          shop_env (JStr ''get_system_status'') (JObj []) ()) =
     Inl (AxiosError \<lparr>ax_message = ''connect ECONNREFUSED'', ax_response = None\<rparr>)"
proof -
  let ?f = "\<lparr>ax_message = ''Request failed with status code 502'',
             ax_response = Some (JStr ''Bad Gateway'')\<rparr>"
  let ?g = "\<lparr>ax_message = ''connect ECONNREFUSED'', ax_response = None\<rparr>"
  let ?ps = "JObj [(''orderId'', JNum 3)]"
  obtain res tr u' where run:
    "handleWooCommerceRequest (failing_store ?f) shop_env (JStr ''get_order'') ?ps () =
       (res, tr, u')"
    by (metis prod_cases3)
  have "\<exists>c. exchanges (handleWooCommerceRequest (failing_store ?f) shop_env (JStr ''get_order'')
                 ?ps ()) = [(c, Inl ?f)]"
    unfolding handle_exchanges
    by (simp add: handleWooCommerceRequest_try_def resolve_def shop_env_def js_or_def
        wpMethods_def wooMethods_def switch_method_def switch_sections_def section_defs
        require_def await_get_def failing_store_def exchanges_def)
  then obtain c where tr: "tr = [(c, Inl ?f)]"
    using run by (auto simp: exchanges_def)
  have res: "res = Inl (Error ''API error: Request failed with status code 502'')"
    using upstream_failure_translation[OF disjI1[OF run]] tr
    by (simp add: opt_get_def)
  obtain res2 tr2 u2 where run2:
    "sse_handleWooCommerceRequest (failing_store ?g) shop_env (JStr ''get_system_status'')
       (JObj []) () = (res2, tr2, u2)"
    by (metis prod_cases3)
  have "\<exists>c. exchanges (sse_handleWooCommerceRequest (failing_store ?g) shop_env
                 (JStr ''get_system_status'') (JObj []) ()) = [(c, Inl ?g)]"
    unfolding sse_handle_exchanges
    by (simp add: sse_handleWooCommerceRequest_try_def resolve_def shop_env_def js_or_def
        sse_switch_def await_get_def failing_store_def exchanges_def)
  then obtain c2 where tr2: "tr2 = [(c2, Inl ?g)]"
    using run2 by (auto simp: exchanges_def)
  have res2: "res2 = Inl (AxiosError ?g)"
    using upstream_failure_translation[OF disjI2[OF run2]] tr2 by simp
  show ?thesis
    unfolding run run2 using res res2 by simp
qed
section \<open>The \<open>force\<close> of a deletion\<close>

text \<open>
  Claim C10, as stated, fails: the \<open>DELETE\<close> does not carry \<open>force=true\<close> whatever the
  caller passes. The value built is \<open>params.force || true\<close>, which is \<open>params.force\<close>
  itself when that is truthy: \<open>delete_coupon\<close> with \<open>force: "false"\<close> (the string) sends
  \<open>force: "false"\<close>.
\<close>

theorem delete_coupon_string_force:
  "handleWooCommerceRequest entity_store shop_env (JStr ''delete_coupon'')
     (JObj [(''couponId'', JNum 7), (''force'', JStr ''false'')]) JNull =
   (Inr JNull,
    [(\<lparr>call_client =
         \<lparr>client_baseURL = ''https://shop.example/wp-json/wc/v3'',
          client_params = [(''consumer_key'', JStr ''ck_1''), (''consumer_secret'', JStr ''cs_1'')],
          client_auth = None,
          client_headers = [(''Content-Type'', ''application/json'')]\<rparr>,
       call_verb = DELETE, call_url = ''/coupons/7'',
       call_params = Some [(''force'', JStr ''false'')], call_data = JUndef\<rparr>,
      Inr JNull)],
    JNull)"
  by (simp add: handleWooCommerceRequest_def handleWooCommerceRequest_try_def resolve_def
      shop_env_def js_or_def wpMethods_def wooMethods_def switch_method_def
      switch_sections_def section_defs require_def await_delete_def woo_client_def
      force_or_true_def entity_store_def digits_nat.simps)

lemma verbs_single: "verbs (run up (Call c Return) u) = [call_verb c]"
  unfolding verbs_def exchanges_single by simp

lemma delete_scripts:
  fixes up :: "'u upstream"
  assumes "resolve ev ps = Inr cr" and "truthy (cred_siteUrl cr)"
    and "truthy (cred_username cr)" and "truthy (cred_password cr)"
    and "truthy (cred_consumerKey cr)" and "truthy (cred_consumerSecret cr)"
  shows
    "truthy (js_get ps ''productId'') \<Longrightarrow>
       verbs (run up (handleWooCommerceRequest_try ev (JStr ''delete_product'') ps) u) = [DELETE]"
    "truthy (js_get ps ''orderId'') \<Longrightarrow>
       verbs (run up (handleWooCommerceRequest_try ev (JStr ''delete_order'') ps) u) = [DELETE]"
    "truthy (js_get ps ''customerId'') \<Longrightarrow>
       verbs (run up (handleWooCommerceRequest_try ev (JStr ''delete_customer'') ps) u) = [DELETE]"
    "truthy (js_get ps ''zoneId'') \<Longrightarrow>
       verbs (run up (handleWooCommerceRequest_try ev (JStr ''delete_shipping_zone'') ps) u) = [DELETE]"
    "truthy (js_get ps ''zoneId'') \<Longrightarrow> truthy (js_get ps ''instanceId'') \<Longrightarrow>
       verbs (run up (handleWooCommerceRequest_try ev (JStr ''delete_shipping_zone_method'') ps) u) = [DELETE]"
    "truthy (js_get ps ''slug'') \<Longrightarrow>
       verbs (run up (handleWooCommerceRequest_try ev (JStr ''delete_tax_class'') ps) u) = [DELETE]"
    "truthy (js_get ps ''rateId'') \<Longrightarrow>
       verbs (run up (handleWooCommerceRequest_try ev (JStr ''delete_tax_rate'') ps) u) = [DELETE]"
    "truthy (js_get ps ''couponId'') \<Longrightarrow>
       verbs (run up (handleWooCommerceRequest_try ev (JStr ''delete_coupon'') ps) u) = [DELETE]"
    "truthy (js_get ps ''orderId'') \<Longrightarrow> truthy (js_get ps ''noteId'') \<Longrightarrow>
       verbs (run up (handleWooCommerceRequest_try ev (JStr ''delete_order_note'') ps) u) = [DELETE]"
    "truthy (js_get ps ''orderId'') \<Longrightarrow> truthy (js_get ps ''refundId'') \<Longrightarrow>
       verbs (run up (handleWooCommerceRequest_try ev (JStr ''delete_order_refund'') ps) u) = [DELETE]"
    "truthy (js_get ps ''productId'') \<Longrightarrow> truthy (js_get ps ''variationId'') \<Longrightarrow>
       verbs (run up (handleWooCommerceRequest_try ev (JStr ''delete_product_variation'') ps) u) = [DELETE]"
    "truthy (js_get ps ''attributeId'') \<Longrightarrow>
       verbs (run up (handleWooCommerceRequest_try ev (JStr ''delete_product_attribute'') ps) u) = [DELETE]"
    "truthy (js_get ps ''attributeId'') \<Longrightarrow> truthy (js_get ps ''termId'') \<Longrightarrow>
       verbs (run up (handleWooCommerceRequest_try ev (JStr ''delete_attribute_term'') ps) u) = [DELETE]"
    "truthy (js_get ps ''categoryId'') \<Longrightarrow>
       verbs (run up (handleWooCommerceRequest_try ev (JStr ''delete_product_category'') ps) u) = [DELETE]"
    "truthy (js_get ps ''tagId'') \<Longrightarrow>
       verbs (run up (handleWooCommerceRequest_try ev (JStr ''delete_product_tag'') ps) u) = [DELETE]"
    "truthy (js_get ps ''reviewId'') \<Longrightarrow>
       verbs (run up (handleWooCommerceRequest_try ev (JStr ''delete_product_review'') ps) u) = [DELETE]"
    "truthy (js_get ps ''postId'') \<Longrightarrow> truthy (js_get ps ''metaId'') \<Longrightarrow>
       verbs (run up (handleWooCommerceRequest_try ev (JStr ''delete_post_meta'') ps) u) = [DELETE]"
  using assms
  by (simp_all add: handleWooCommerceRequest_try_def wpMethods_def wooMethods_def
      switch_method_def switch_sections_def section_defs require_def
      await_delete_def verbs_single del: run.simps)

lemma delete_issued:
  fixes up :: "'u upstream"
  assumes mem: "(name, ids) \<in> set delete_requirements"
    and ids: "\<forall>k \<in> set ids. truthy (js_get ps k)"
    and res: "resolve ev ps = Inr cr"
    and creds: "truthy (cred_siteUrl cr)"
      "truthy (cred_username cr)" "truthy (cred_password cr)"
      "truthy (cred_consumerKey cr)" "truthy (cred_consumerSecret cr)"
  shows "verbs (handleWooCommerceRequest up ev (JStr name) ps u) = [DELETE]"
proof -
  have same: "verbs (handleWooCommerceRequest up ev m ps u) =
                verbs (run up (handleWooCommerceRequest_try ev m ps) u)" for m
    by (simp add: verbs_def handle_exchanges)
  from mem have "(name = ''delete_product'' \<and> ids = [''productId'']) \<or>
      (name = ''delete_order'' \<and> ids = [''orderId'']) \<or>
      (name = ''delete_customer'' \<and> ids = [''customerId'']) \<or>
      (name = ''delete_shipping_zone'' \<and> ids = [''zoneId'']) \<or>
      (name = ''delete_shipping_zone_method'' \<and> ids = [''zoneId'', ''instanceId'']) \<or>
      (name = ''delete_tax_class'' \<and> ids = [''slug'']) \<or>
      (name = ''delete_tax_rate'' \<and> ids = [''rateId'']) \<or>
      (name = ''delete_coupon'' \<and> ids = [''couponId'']) \<or>
      (name = ''delete_order_note'' \<and> ids = [''orderId'', ''noteId'']) \<or>
      (name = ''delete_order_refund'' \<and> ids = [''orderId'', ''refundId'']) \<or>
      (name = ''delete_product_variation'' \<and> ids = [''productId'', ''variationId'']) \<or>
      (name = ''delete_product_attribute'' \<and> ids = [''attributeId'']) \<or>
      (name = ''delete_attribute_term'' \<and> ids = [''attributeId'', ''termId'']) \<or>
      (name = ''delete_product_category'' \<and> ids = [''categoryId'']) \<or>
      (name = ''delete_product_tag'' \<and> ids = [''tagId'']) \<or>
      (name = ''delete_product_review'' \<and> ids = [''reviewId'']) \<or>
      (name = ''delete_post_meta'' \<and> ids = [''postId'', ''metaId''])"
    by (simp add: delete_requirements_def)
  note cases = this
  note scripts = delete_scripts[OF res creds, of up u]
  from cases show ?thesis
    using ids by (elim disjE conjE) (simp_all add: same scripts)
qed

text \<open>
  Claim C10, amended. In \<open>src/index.ts\<close>, every \<open>DELETE\<close> that a dispatch issues carries
  the query \<open>{force: params.force || false}\<close> when the method is \<open>delete_product\<close>,
  \<open>delete_order\<close> or \<open>delete_customer\<close>, and \<open>{force: params.force || true}\<close> for every
  other method. Each of the seventeen deletions, given its required parameters and
  resolved credentials that are truthy, issues exactly one call, a \<open>DELETE\<close>. So for the fourteen other deletions
  (shipping zones and their methods, tax classes and rates, coupons, order notes and
  refunds, product variations, attributes and their terms, categories, tags, reviews, post
  meta) an absent \<open>force\<close> and a boolean one, \<open>false\<close> included, give \<open>force: true\<close>; a
  truthy \<open>force\<close> of any other kind is sent as it is; and the three other deletions send
  \<open>force: false\<close> for an absent or false \<open>force\<close>.
\<close>

theorem delete_force:
  fixes up :: "'u upstream"
  shows
   "(\<forall>(c, r) \<in> set (exchanges (handleWooCommerceRequest up ev m ps u)).
       call_verb c = DELETE \<longrightarrow>
       call_params c =
         Some (if m \<in> set (map JStr soft_deletes) then force_or_false ps
               else force_or_true ps))
  \<and> (\<forall>(name, ids) \<in> set delete_requirements.
       (\<forall>k \<in> set ids. truthy (js_get ps k))
       \<and> resolve ev ps = Inr cr
       \<and> truthy (cred_siteUrl cr)
       \<and> truthy (cred_username cr) \<and> truthy (cred_password cr)
       \<and> truthy (cred_consumerKey cr) \<and> truthy (cred_consumerSecret cr) \<longrightarrow>
       verbs (handleWooCommerceRequest up ev (JStr name) ps u) = [DELETE])
  \<and> (js_get ps ''force'' = JUndef \<or> js_get ps ''force'' = JBool b \<longrightarrow>
       force_or_true ps = [(''force'', JBool True)])
  \<and> (truthy (js_get ps ''force'') \<longrightarrow>
       force_or_true ps = [(''force'', js_get ps ''force'')]
       \<and> force_or_false ps = [(''force'', js_get ps ''force'')])
  \<and> (js_get ps ''force'' = JUndef \<or> js_get ps ''force'' = JBool False \<longrightarrow>
       force_or_false ps = [(''force'', JBool False)])"
proof -
  have force: "call_params c =
         Some (if m \<in> set (map JStr soft_deletes) then force_or_false ps
               else force_or_true ps)"
    if "(c, r) \<in> set (exchanges (handleWooCommerceRequest up ev m ps u))"
      and "call_verb c = DELETE" for c r
  proof -
    from that(1) obtain cr' where res: "resolve ev ps = Inr cr'"
      by (rule exchange_resolved)
    from that(1)
    have "(c, r) \<in> set (exchanges (run up (handleWooCommerceRequest_try ev m ps) u))"
      by (simp add: handle_exchanges)
    then have "call_ok
        (if m \<in> set (map JStr wpMethods)
         then wp_client (cred_siteUrl cr') (cred_username cr') (cred_password cr')
         else woo_client (cred_siteUrl cr') (cred_consumerKey cr')
                (cred_consumerSecret cr'))
        m ps c"
      by (rule run_all_calls[OF try_calls[OF res]])
    with that(2) show ?thesis
      by (simp add: call_ok_def delete_query_def)
  qed
  have issued: "verbs (handleWooCommerceRequest up ev (JStr name) ps u) = [DELETE]"
    if "(name, ids) \<in> set delete_requirements" "\<forall>k \<in> set ids. truthy (js_get ps k)"
      "resolve ev ps = Inr cr" "truthy (cred_siteUrl cr)"
      "truthy (cred_username cr)" "truthy (cred_password cr)"
      "truthy (cred_consumerKey cr)" "truthy (cred_consumerSecret cr)" for name ids
    using that by (rule delete_issued)
  have vals: "js_get ps ''force'' = JUndef \<or> js_get ps ''force'' = JBool b \<longrightarrow>
       force_or_true ps = [(''force'', JBool True)]"
    "truthy (js_get ps ''force'') \<longrightarrow>
       force_or_true ps = [(''force'', js_get ps ''force'')]
       \<and> force_or_false ps = [(''force'', js_get ps ''force'')]"
    "js_get ps ''force'' = JUndef \<or> js_get ps ''force'' = JBool False \<longrightarrow>
       force_or_false ps = [(''force'', JBool False)]"
    by (auto simp: force_or_true_def force_or_false_def js_or_def)
  show ?thesis
    apply (intro conjI)
    subgoal using force by blast
    subgoal using issued by blast
    subgoal using vals(1) .
    subgoal using vals(2) .
    subgoal using vals(3) .
    done
qed

theorem delete_force_witness:
  "map (\<lambda>x. (call_verb (fst x), call_url (fst x), call_params (fst x)))
     (exchanges (handleWooCommerceRequest entity_store shop_env (JStr ''delete_coupon'')
        (JObj [(''couponId'', JNum 7), (''force'', JBool False)]) JNull)) =
     [(DELETE, ''/coupons/7'', Some [(''force'', JBool True)])]
   \<and> map (\<lambda>x. (call_verb (fst x), call_url (fst x), call_params (fst x)))
     (exchanges (handleWooCommerceRequest entity_store shop_env (JStr ''delete_product'')
        (JObj [(''productId'', JNum 7), (''force'', JBool False)]) JNull)) =
     [(DELETE, ''/products/7'', Some [(''force'', JBool False)])]"
proof -
  let ?ps = "JObj [(''couponId'', JNum 7), (''force'', JBool False)]"
  let ?qs = "JObj [(''productId'', JNum 7), (''force'', JBool False)]"
  have res: "resolve shop_env ?ps = Inr shop_credentials"
    "resolve shop_env ?qs = Inr shop_credentials"
    by (simp_all add: resolve_def shop_env_def shop_credentials_def js_or_def)
  have creds: "truthy (cred_siteUrl shop_credentials)"
    "truthy (cred_username shop_credentials)" "truthy (cred_password shop_credentials)"
    "truthy (cred_consumerKey shop_credentials)" "truthy (cred_consumerSecret shop_credentials)"
    by (simp_all add: shop_credentials_def)
  note t1 = delete_force[where up = entity_store and ev = shop_env
      and m = "JStr ''delete_coupon''" and ps = ?ps and u = JNull and cr = shop_credentials
      and b = False]
  note t2 = delete_force[where up = entity_store and ev = shop_env
      and m = "JStr ''delete_product''" and ps = ?qs and u = JNull and cr = shop_credentials
      and b = False]
  have v1: "verbs (handleWooCommerceRequest entity_store shop_env (JStr ''delete_coupon'') ?ps
              JNull) = [DELETE]"
    using t1 res creds by (simp add: delete_requirements_def)
  have v2: "verbs (handleWooCommerceRequest entity_store shop_env (JStr ''delete_product'') ?qs
              JNull) = [DELETE]"
    using t2 res creds by (simp add: delete_requirements_def)
  obtain c r where ex1: "exchanges (handleWooCommerceRequest entity_store shop_env
        (JStr ''delete_coupon'') ?ps JNull) = [(c, r)]"
    using v1 by (auto simp: verbs_def)
  obtain d q where ex2: "exchanges (handleWooCommerceRequest entity_store shop_env
        (JStr ''delete_product'') ?qs JNull) = [(d, q)]"
    using v2 by (auto simp: verbs_def)
  have c: "call_verb c = DELETE" using v1 by (simp add: verbs_def ex1)
  have d: "call_verb d = DELETE" using v2 by (simp add: verbs_def ex2)
  have p1: "call_params c = Some [(''force'', JBool True)]"
    using t1 c unfolding ex1 by (simp add: soft_deletes_def)
  have p2: "call_params d = Some [(''force'', JBool False)]"
    using t2 d unfolding ex2 by (simp add: soft_deletes_def)
  have u1: "call_url c = ''/coupons/7''"
    using ex1 unfolding handle_exchanges
    by (auto simp: handleWooCommerceRequest_try_def resolve_def shop_env_def js_or_def
        wpMethods_def wooMethods_def switch_method_def switch_sections_def section_defs
        require_def await_delete_def exchanges_def entity_store_def digits_nat.simps)
  have u2: "call_url d = ''/products/7''"
    using ex2 unfolding handle_exchanges
    by (auto simp: handleWooCommerceRequest_try_def resolve_def shop_env_def js_or_def
        wpMethods_def wooMethods_def switch_method_def switch_sections_def section_defs
        require_def await_delete_def exchanges_def entity_store_def digits_nat.simps)
  show ?thesis
    unfolding ex1 ex2 using c d p1 p2 u1 u2 by simp
qed

end
